theory Spec2Isabelle
  imports Main
begin

section \<open>Strings and paths\<close>

text \<open>
  Python strings are modelled as \<open>string\<close>, one 8-bit character for each code point, so
  the model covers text whose code points are below 256. The helpers below are the \<open>str\<close>
  and \<open>os.path\<close> operations the program uses, the latter with their POSIX behaviour.
\<close>

type_synonym path = string

text \<open>
  \<open>str.lower()\<close>: the letters \<open>A\<close> to \<open>Z\<close> and the capital letters with the code points
  0xC0 to 0xDE (without the multiplication sign 0xD7) have a lower-case form.
\<close>

definition upper_letters :: "char list" where
  "upper_letters =
     ''ABCDEFGHIJKLMNOPQRSTUVWXYZ'' @
       [CHR 0xC0, CHR 0xC1, CHR 0xC2, CHR 0xC3, CHR 0xC4, CHR 0xC5, CHR 0xC6, CHR 0xC7,
        CHR 0xC8, CHR 0xC9, CHR 0xCA, CHR 0xCB, CHR 0xCC, CHR 0xCD, CHR 0xCE, CHR 0xCF,
        CHR 0xD0, CHR 0xD1, CHR 0xD2, CHR 0xD3, CHR 0xD4, CHR 0xD5, CHR 0xD6, CHR 0xD8,
        CHR 0xD9, CHR 0xDA, CHR 0xDB, CHR 0xDC, CHR 0xDD, CHR 0xDE]"

definition lower_letters :: "char list" where
  "lower_letters =
     ''abcdefghijklmnopqrstuvwxyz'' @
       [CHR 0xE0, CHR 0xE1, CHR 0xE2, CHR 0xE3, CHR 0xE4, CHR 0xE5, CHR 0xE6, CHR 0xE7,
        CHR 0xE8, CHR 0xE9, CHR 0xEA, CHR 0xEB, CHR 0xEC, CHR 0xED, CHR 0xEE, CHR 0xEF,
        CHR 0xF0, CHR 0xF1, CHR 0xF2, CHR 0xF3, CHR 0xF4, CHR 0xF5, CHR 0xF6, CHR 0xF8,
        CHR 0xF9, CHR 0xFA, CHR 0xFB, CHR 0xFC, CHR 0xFD, CHR 0xFE]"

definition lower_char :: "char \<Rightarrow> char" where
  "lower_char c = (case map_of (zip upper_letters lower_letters) c of Some l \<Rightarrow> l | None \<Rightarrow> c)"

definition lower :: "string \<Rightarrow> string" where
  "lower s = map lower_char s"

fun startswith :: "string \<Rightarrow> string \<Rightarrow> bool" where
  "startswith s [] = True"
| "startswith [] (p # ps) = False"
| "startswith (c # cs) (p # ps) = (c = p \<and> startswith cs ps)"

definition endswith :: "string \<Rightarrow> string \<Rightarrow> bool" where
  "endswith s suf = startswith (rev s) (rev suf)"

fun contains :: "string \<Rightarrow> string \<Rightarrow> bool" where
  "contains [] sub = (sub = [])"
| "contains (c # cs) sub = (startswith (c # cs) sub \<or> contains cs sub)"

text \<open>\<open>rfind s c\<close> is the number of characters before the last occurrence of \<open>c\<close>.\<close>

fun rfind :: "string \<Rightarrow> char \<Rightarrow> nat option" where
  "rfind [] c = None"
| "rfind (x # xs) c =
     (case rfind xs c of
        Some i \<Rightarrow> Some (Suc i)
      | None \<Rightarrow> if x = c then Some 0 else None)"

text \<open>
  \<open>os.path.splitext\<close>: the extension starts at the last dot of the last path component,
  unless that component has nothing but dots before it.
\<close>

definition splitext :: "path \<Rightarrow> path \<times> string" where
  "splitext p =
     (let filenameIndex = (case rfind p CHR ''/'' of None \<Rightarrow> 0 | Some i \<Rightarrow> Suc i)
      in case rfind p CHR ''.'' of
           None \<Rightarrow> (p, [])
         | Some dotIndex \<Rightarrow>
             if filenameIndex \<le> dotIndex \<and>
                (\<exists>c \<in> set (take (dotIndex - filenameIndex) (drop filenameIndex p)). c \<noteq> CHR ''.'')
             then (take dotIndex p, drop dotIndex p)
             else (p, []))"

definition dirname :: "path \<Rightarrow> path" where
  "dirname p =
     (case rfind p CHR ''/'' of
        None \<Rightarrow> []
      | Some i \<Rightarrow>
          (let head = take (Suc i) p
           in if \<forall>c \<in> set head. c = CHR ''/'' then head
              else rev (dropWhile (\<lambda>c. c = CHR ''/'') (rev head))))"

definition basename :: "path \<Rightarrow> string" where
  "basename p = (case rfind p CHR ''/'' of None \<Rightarrow> p | Some i \<Rightarrow> drop (Suc i) p)"

definition path_join :: "path \<Rightarrow> string \<Rightarrow> path" where
  "path_join a b =
     (if startswith b ''/'' then b
      else if a = [] \<or> endswith a ''/'' then a @ b
      else a @ ''/'' @ b)"

text \<open>
  \<open>str.strip()\<close>: the characters Python counts as whitespace are removed at both ends.
  Below 256 these are the code points 9 to 13, 28 to 32, 0x85 and 0xA0.
\<close>

definition is_space :: "char \<Rightarrow> bool" where
  "is_space c = (of_char c \<in> {9, 10, 11, 12, 13, 28, 29, 30, 31, 32, 133, 160 :: nat})"

definition lstrip :: "(char \<Rightarrow> bool) \<Rightarrow> string \<Rightarrow> string" where
  "lstrip P s = dropWhile P s"

definition strip :: "string \<Rightarrow> string" where
  "strip s = rev (dropWhile is_space (rev (dropWhile is_space s)))"

text \<open>
  \<open>s.replace(old, new)\<close> for a non-empty \<open>old\<close>: every occurrence, from left to right,
  without overlaps.
\<close>

function replace :: "string \<Rightarrow> string \<Rightarrow> string \<Rightarrow> string" where
  "replace [] old new = []"
| "replace (c # cs) old new =
     (if old \<noteq> [] \<and> startswith (c # cs) old
      then new @ replace (drop (length old) (c # cs)) old new
      else c # replace cs old new)"
  by pat_completeness auto
termination
  by (relation "measure (\<lambda>(s, old, new). length s)") auto

text \<open>\<open>re.sub(r'[<>:"/\\|?*]', '', s)\<close>: the characters of the class are deleted.\<close>

definition forbidden_chars :: "char list" where
  "forbidden_chars = [CHR ''<'', CHR ''>'', CHR '':'', CHR 0x22, CHR ''/'', CHR 0x5C,
                      CHR ''|'', CHR ''?'', CHR ''*'']"

definition clean_name :: "string \<Rightarrow> string" where
  "clean_name s = filter (\<lambda>c. c \<notin> set forbidden_chars) s"

text \<open>Decimal numerals, and the zero padding of \<open>strftime\<close> and of the format \<open>03d\<close>.\<close>

definition digit_char :: "nat \<Rightarrow> char" where
  "digit_char d = ''0123456789'' ! d"

function str_nat :: "nat \<Rightarrow> string" where
  "str_nat n = (if n < 10 then [digit_char n] else str_nat (n div 10) @ [digit_char (n mod 10)])"
  by pat_completeness auto
termination
  by (relation "measure (\<lambda>n. n)") auto

declare str_nat.simps [simp del]

definition zero_pad :: "nat \<Rightarrow> nat \<Rightarrow> string" where
  "zero_pad width n = replicate (width - length (str_nat n)) CHR ''0'' @ str_nat n"

section \<open>Python values and exceptions\<close>

text \<open>
  The data that reaches the program from JSON documents and from the extraction library
  is dynamically typed. \<open>pyval\<close> has the JSON shapes (numbers are integers); a
  dictionary is the list of its items in insertion order. \<open>exn\<close> has the exceptions
  derived from \<open>Exception\<close> that the modelled operations raise, each with the text
  \<open>str(e)\<close> gives.
\<close>

datatype pyval =
    PNone
  | PBool bool
  | PInt int
  | PStr string
  | PList "pyval list"
  | PDict "(pyval \<times> pyval) list"

type_synonym pydict = "(pyval \<times> pyval) list"

datatype exn =
    AttributeError string
  | TypeError string
  | KeyError string
  | ValueError string
  | DownloadError string
  | RequestException string
  | OtherError string

fun exn_str :: "exn \<Rightarrow> string" where
  "exn_str (AttributeError m) = m"
| "exn_str (TypeError m) = m"
| "exn_str (KeyError m) = m"
| "exn_str (ValueError m) = m"
| "exn_str (DownloadError m) = m"
| "exn_str (RequestException m) = m"
| "exn_str (OtherError m) = m"

fun truthy :: "pyval \<Rightarrow> bool" where
  "truthy PNone = False"
| "truthy (PBool b) = b"
| "truthy (PInt n) = (n \<noteq> 0)"
| "truthy (PStr s) = (s \<noteq> [])"
| "truthy (PList xs) = (xs \<noteq> [])"
| "truthy (PDict kvs) = (kvs \<noteq> [])"

fun type_name :: "pyval \<Rightarrow> string" where
  "type_name PNone = ''NoneType''"
| "type_name (PBool b) = ''bool''"
| "type_name (PInt n) = ''int''"
| "type_name (PStr s) = ''str''"
| "type_name (PList xs) = ''list''"
| "type_name (PDict kvs) = ''dict''"

definition no_attribute :: "pyval \<Rightarrow> string \<Rightarrow> exn" where
  "no_attribute v name =
     AttributeError ([CHR 0x27] @ type_name v @ [CHR 0x27] @ '' object has no attribute '' @
                     [CHR 0x27] @ name @ [CHR 0x27])"

text \<open>\<open>v.get(key, default)\<close>, \<open>v.items()\<close>, \<open>v.lower()\<close>.\<close>

definition py_get :: "pyval \<Rightarrow> string \<Rightarrow> pyval \<Rightarrow> exn + pyval" where
  "py_get v key dflt =
     (case v of
        PDict kvs \<Rightarrow> Inr (case map_of kvs (PStr key) of Some x \<Rightarrow> x | None \<Rightarrow> dflt)
      | _ \<Rightarrow> Inl (no_attribute v ''get''))"

definition py_items :: "pyval \<Rightarrow> exn + pydict" where
  "py_items v = (case v of PDict kvs \<Rightarrow> Inr kvs | _ \<Rightarrow> Inl (no_attribute v ''items''))"

definition py_lower :: "pyval \<Rightarrow> exn + string" where
  "py_lower v = (case v of PStr s \<Rightarrow> Inr (lower s) | _ \<Rightarrow> Inl (no_attribute v ''lower''))"

text \<open>\<open>key in v\<close> for a string \<open>key\<close>.\<close>

definition py_contains :: "string \<Rightarrow> pyval \<Rightarrow> exn + bool" where
  "py_contains key v =
     (case v of
        PDict kvs \<Rightarrow> Inr (PStr key \<in> set (map fst kvs))
      | PStr s \<Rightarrow> Inr (contains s key)
      | PList xs \<Rightarrow> Inr (PStr key \<in> set xs)
      | _ \<Rightarrow> Inl (TypeError (''argument of type '' @ [CHR 0x27] @ type_name v @ [CHR 0x27] @
                            '' is not iterable'')))"

text \<open>\<open>v[key]\<close> for a string \<open>key\<close>.\<close>

definition py_getitem :: "pyval \<Rightarrow> string \<Rightarrow> exn + pyval" where
  "py_getitem v key =
     (case v of
        PDict kvs \<Rightarrow>
          (case map_of kvs (PStr key) of
             Some x \<Rightarrow> Inr x
           | None \<Rightarrow> Inl (KeyError ([CHR 0x27] @ key @ [CHR 0x27])))
      | PStr s \<Rightarrow> Inl (TypeError ''string indices must be integers'')
      | PList xs \<Rightarrow> Inl (TypeError ''list indices must be integers or slices, not str'')
      | _ \<Rightarrow> Inl (TypeError ([CHR 0x27] @ type_name v @ [CHR 0x27] @ '' object is not subscriptable'')))"

text \<open>The elements a \<open>for\<close> loop over \<open>v\<close> visits.\<close>

definition py_iter :: "pyval \<Rightarrow> exn + pyval list" where
  "py_iter v =
     (case v of
        PList xs \<Rightarrow> Inr xs
      | PDict kvs \<Rightarrow> Inr (map fst kvs)
      | PStr s \<Rightarrow> Inr (map (\<lambda>c. PStr [c]) s)
      | _ \<Rightarrow> Inl (TypeError ([CHR 0x27] @ type_name v @ [CHR 0x27] @ '' object is not iterable'')))"

text \<open>
  Storing into a dictionary: an equal key keeps its place and gets the new value, a new
  key goes to the end; lists and dictionaries are not hashable. \<open>True\<close> and \<open>1\<close> (and
  \<open>False\<close> and \<open>0\<close>) are the same key.
\<close>

fun key_norm :: "pyval \<Rightarrow> pyval" where
  "key_norm (PBool b) = PInt (if b then 1 else 0)"
| "key_norm v = v"

definition same_key :: "pyval \<Rightarrow> pyval \<Rightarrow> bool" where
  "same_key a b = (key_norm a = key_norm b)"

fun hashable :: "pyval \<Rightarrow> bool" where
  "hashable (PList xs) = False"
| "hashable (PDict kvs) = False"
| "hashable v = True"

fun dict_set :: "pydict \<Rightarrow> pyval \<Rightarrow> pyval \<Rightarrow> pydict" where
  "dict_set [] k v = [(k, v)]"
| "dict_set ((k', v') # kvs) k v =
     (if same_key k' k then (k', v) # kvs else (k', v') # dict_set kvs k v)"

definition py_setitem :: "pydict \<Rightarrow> pyval \<Rightarrow> pyval \<Rightarrow> exn + pydict" where
  "py_setitem d k v =
     (if hashable k then Inr (dict_set d k v)
      else Inl (TypeError (''unhashable type: '' @ [CHR 0x27] @ type_name k @ [CHR 0x27])))"

definition dict_update :: "pydict \<Rightarrow> pydict \<Rightarrow> pydict" where
  "dict_update d kvs = foldl (\<lambda>d kv. dict_set d (fst kv) (snd kv)) d kvs"

section \<open>The filesystem and the external conversion tool\<close>

text \<open>
  The recorder sees the filesystem through \<open>os.path.exists\<close>, \<open>os.path.getsize\<close>,
  \<open>os.remove\<close> and \<open>os.listdir\<close>. A filesystem is the map from the paths of the existing
  files to their sizes, the paths whose removal is refused by the operating system
  (\<open>os.remove\<close> raises there), and the listing \<open>os.listdir\<close> gives for a directory
  (\<open>None\<close> when it raises).
\<close>

record filesystem =
  files :: "path \<rightharpoonup> nat"
  locked :: "path list"
  listdir :: "path \<Rightarrow> string list option"

text \<open>
  The three ffmpeg command lines of \<open>_convert_to_mp4\<close>. A call of \<open>subprocess.run\<close> either
  returns an exit code or raises (the 1800 s timeout, a launch error); in both cases the
  process may have written a file of some size at its output path.
\<close>

datatype cmd = Cmd_remux | Cmd_reencode | Cmd_full

datatype run_result = Exited int "nat option" | Raised "nat option"

text \<open>
  A capture process is started with \<open>subprocess.Popen\<close>, by ffmpeg on the stream URL or
  by yt-dlp on the page URL. The call raises, or the process has already exited when it is
  polled after the grace period (its process id and captured output are known), or it is
  running.
\<close>

datatype capture = Ffmpeg | Ytdlp

datatype spawn_result = Popen_raised string | Exited_early nat string | Running nat

text \<open>
  The trace records what the program does to the outside. For a conversion command: the
  command, the exit code (\<open>None\<close> when the call raised) and the size of the file at the
  output path when the call ended (\<open>None\<close> when there is none). For the recorder: the
  shutdown of a capture process and the notifications and callbacks of a session. For the
  watchlist monitor: the resolution of a handle, the request to start a recording and the
  update posted to the user interface.
\<close>

datatype event =
    Conv cmd "int option" "nat option"
  | Shutdown nat
  | Notify_record_start string
  | Notify_record_end string
  | On_complete string "path option"
  | Resolve pyval
  | Auto_start string
  | Notify_live string
  | Monitor_update

text \<open>The fields of \<open>AppConfig\<close> (and of its \<open>TelegramConfig\<close>) that the core reads and writes.\<close>

record app_config =
  cfg_output_dir :: string
  cfg_filename_pattern :: string
  cfg_quality :: string
  cfg_notify_on_live :: bool
  total_recordings :: nat
  total_size_bytes :: nat
  total_duration_seconds :: nat

record world =
  fs :: filesystem
  trace :: "event list"
  config :: app_config

text \<open>\<open>datetime.now()\<close>\<close>

record datetime =
  dt_year :: nat
  dt_month :: nat
  dt_day :: nat
  dt_hour :: nat
  dt_minute :: nat
  dt_second :: nat
  dt_microsecond :: nat

text \<open>
  What a call of the recorder gets from the outside: whether \<open>ffmpeg -version\<close> runs,
  how each conversion command ends, how the capture process for a tool and a target URL
  starts, the local time, the clock \<open>time.time()\<close> in whole milliseconds, and whether the
  output directory can be created.
\<close>

record environment =
  ffmpeg_present :: bool
  run_cmd :: "cmd \<Rightarrow> run_result"
  popen :: "capture \<Rightarrow> pyval \<Rightarrow> spawn_result"
  now :: datetime
  time_ms :: nat
  mkdir_ok :: bool

definition path_exists :: "world \<Rightarrow> path \<Rightarrow> bool" where
  "path_exists w p = (files (fs w) p \<noteq> None)"

definition getsize :: "world \<Rightarrow> path \<Rightarrow> nat option" where
  "getsize w p = files (fs w) p"

text \<open>
  \<open>os.remove\<close> inside \<open>try: ... except: pass\<close>: the file is gone afterwards unless the
  removal is refused.
\<close>

definition try_remove :: "path \<Rightarrow> world \<Rightarrow> world" where
  "try_remove p w =
     (if p \<in> set (locked (fs w)) then w
      else w\<lparr>fs := (fs w)\<lparr>files := (files (fs w))(p := None)\<rparr>\<rparr>)"

definition written :: "run_result \<Rightarrow> nat option" where
  "written res = (case res of Exited rc wr \<Rightarrow> wr | Raised wr \<Rightarrow> wr)"

definition returncode :: "run_result \<Rightarrow> int option" where
  "returncode res = (case res of Exited rc wr \<Rightarrow> Some rc | Raised wr \<Rightarrow> None)"

text \<open>
  \<open>subprocess.run(cmd, capture_output=True, timeout=1800)\<close> for a conversion command
  that writes \<open>mp4_output\<close>: the result is the exit code, or \<open>None\<close> when the call raised.
\<close>

definition subprocess_run :: "environment \<Rightarrow> cmd \<Rightarrow> path \<Rightarrow> world \<Rightarrow> int option \<times> world" where
  "subprocess_run env c mp4_output w =
     (let res = run_cmd env c;
          fs' = (case written res of
                   None \<Rightarrow> fs w
                 | Some n \<Rightarrow> (fs w)\<lparr>files := (files (fs w))(mp4_output \<mapsto> n)\<rparr>)
      in (returncode res,
          w\<lparr>fs := fs', trace := trace w @ [Conv c (returncode res) (files fs' mp4_output)]\<rparr>))"

section \<open>The recorder\<close>

record recorder =
  is_recording :: bool
  is_stopping :: bool
  output_file :: "path option"
  actual_recording_file :: "path option"
  raw_recording_file :: "path option"
  username :: string
  title :: pyval
  live_url :: string
  stream_url :: pyval
  process :: "nat option"
  first_write_time :: "nat option"
  recording_method :: string
  last_error :: "string option"
  on_complete :: bool

text \<open>\<open>_find_ffmpeg\<close>: \<open>"ffmpeg"\<close> unless running \<open>ffmpeg -version\<close> raises.\<close>

definition find_ffmpeg :: "environment \<Rightarrow> string option" where
  "find_ffmpeg env = (if ffmpeg_present env then Some ''ffmpeg'' else None)"

text \<open>The test \<open>p and os.path.exists(p)\<close> on an optional path.\<close>

definition present :: "world \<Rightarrow> path option \<Rightarrow> bool" where
  "present w p = (case p of None \<Rightarrow> False | Some s \<Rightarrow> s \<noteq> [] \<and> path_exists w s)"

text \<open>
  \<open>_cleanup_flv\<close>: remove the original FLV file, and the input file too when it is a
  different FLV file.
\<close>

definition cleanup_flv :: "path option \<Rightarrow> path \<Rightarrow> world \<Rightarrow> world" where
  "cleanup_flv original_flv input_file w =
     (let w1 = (case original_flv of
                  None \<Rightarrow> w
                | Some p \<Rightarrow> if p \<noteq> [] \<and> path_exists w p then try_remove p w else w)
      in if input_file \<noteq> [] \<and> Some input_file \<noteq> original_flv \<and> path_exists w1 input_file
         then (if endswith (lower input_file) ''.flv'' then try_remove input_file w1 else w1)
         else w1)"

text \<open>
  \<open>_find_actual_file\<close>: the raw recording file, else the file found before, else the
  output path, else the output path under another extension, else the first entry of the
  output directory that starts with the base name.
\<close>

definition find_actual_file :: "recorder \<Rightarrow> world \<Rightarrow> path option" where
  "find_actual_file r w =
     (if present w (raw_recording_file r) then raw_recording_file r
      else if present w (actual_recording_file r) then actual_recording_file r
      else
        (case output_file r of
           None \<Rightarrow> None
         | Some out \<Rightarrow>
             if out = [] then None
             else
               (let base = fst (splitext out);
                    dir_path = dirname out;
                    base_name = basename base
                in if path_exists w out then Some out
                   else
                     (case find (\<lambda>ext. path_exists w (base @ ext))
                             [''.flv'', ''.mp4'', ''.ts'', ''.mkv'', ''.webm''] of
                        Some ext \<Rightarrow> Some (base @ ext)
                      | None \<Rightarrow>
                          (case listdir (fs w) dir_path of
                             None \<Rightarrow> None
                           | Some names \<Rightarrow>
                               (case find (\<lambda>f. startswith f base_name \<and> \<not> endswith f ''.txt'') names of
                                  Some f \<Rightarrow> Some (path_join dir_path f)
                                | None \<Rightarrow> None))))))"

text \<open>
  The first statements of \<open>_complete\<close> and of \<open>_complete_after_stop\<close>: the file found
  becomes the output path.
\<close>

definition adopt_actual_file :: "recorder \<times> world \<Rightarrow> recorder \<times> world" where
  "adopt_actual_file rw =
     (let (r, w) = rw
      in case find_actual_file r w of
           None \<Rightarrow> (r, w)
         | Some actual_file \<Rightarrow>
             if actual_file \<noteq> [] then (r\<lparr>output_file := Some actual_file\<rparr>, w) else (r, w))"

text \<open>
  The first lines of \<open>_convert_to_mp4\<close>: the file to convert is the raw recording file,
  else the file the monitor tracked, else the output path; the first of them that exists.
\<close>

definition convert_input :: "recorder \<Rightarrow> world \<Rightarrow> path option" where
  "convert_input r w =
     (let input_file = raw_recording_file r;
          input_file = (if \<not> present w input_file then actual_recording_file r else input_file);
          input_file = (if \<not> present w input_file then output_file r else input_file)
      in if \<not> present w input_file then None else input_file)"

definition mp4_target :: "path \<Rightarrow> path \<Rightarrow> path" where
  "mp4_target out input_file =
     (let base_name = fst (splitext out);
          mp4_output = base_name @ ''.mp4''
      in if input_file = mp4_output then base_name @ ''_converted.mp4'' else mp4_output)"

text \<open>
  The acceptance tests of the three steps. The source compares \<open>output_size\<close> with the
  floating-point products \<open>file_size * 0.5\<close> and \<open>file_size * 0.3\<close>; for sizes below
  \<open>2 ^ 50\<close> bytes those comparisons agree with the integer comparisons written here.
\<close>

definition remux_valid :: "int \<Rightarrow> world \<Rightarrow> path \<Rightarrow> nat \<Rightarrow> bool" where
  "remux_valid rc w mp4_output file_size =
     (rc = 0 \<and> (case getsize w mp4_output of None \<Rightarrow> False
                | Some output_size \<Rightarrow> file_size < 2 * output_size))"

definition reencode_valid :: "int \<Rightarrow> world \<Rightarrow> path \<Rightarrow> nat \<Rightarrow> bool" where
  "reencode_valid rc w mp4_output file_size =
     (rc = 0 \<and> (case getsize w mp4_output of None \<Rightarrow> False
                | Some output_size \<Rightarrow> 3 * file_size < 10 * output_size))"

definition full_valid :: "int \<Rightarrow> world \<Rightarrow> path \<Rightarrow> bool" where
  "full_valid rc w mp4_output =
     (rc = 0 \<and> (case getsize w mp4_output of None \<Rightarrow> False
                | Some output_size \<Rightarrow> 10000 < output_size))"

text \<open>\<open>Clean up failed attempt\<close>: remove the rejected output when there is one.\<close>

definition discard_attempt :: "path \<Rightarrow> world \<Rightarrow> world" where
  "discard_attempt mp4_output w =
     (if path_exists w mp4_output then try_remove mp4_output w else w)"

text \<open>
  The \<open>try\<close> block of \<open>_convert_to_mp4\<close>. \<open>Inl w'\<close> is an exception raised in world \<open>w'\<close>
  (\<open>os.path.splitext\<close> on a missing output path, or \<open>subprocess.run\<close> raising);
  \<open>Inr\<close> is the normal end of the block.
\<close>

definition ladder ::
  "environment \<Rightarrow> recorder \<Rightarrow> world \<Rightarrow> path \<Rightarrow> nat \<Rightarrow> world + recorder \<times> world" where
  "ladder env r w input_file file_size =
     (case output_file r of
        None \<Rightarrow> Inl w
      | Some out \<Rightarrow>
          (let mp4_output = mp4_target out input_file;
               original_flv = (if endswith (lower input_file) ''.flv'' then Some input_file else None)
           in case subprocess_run env Cmd_remux mp4_output w of
                (None, w1) \<Rightarrow> Inl w1
              | (Some rc1, w1) \<Rightarrow>
                  if remux_valid rc1 w1 mp4_output file_size
                  then Inr (r\<lparr>output_file := Some mp4_output\<rparr>, cleanup_flv original_flv input_file w1)
                  else
                    (case subprocess_run env Cmd_reencode mp4_output (discard_attempt mp4_output w1) of
                       (None, w2) \<Rightarrow> Inl w2
                     | (Some rc2, w2) \<Rightarrow>
                         if reencode_valid rc2 w2 mp4_output file_size
                         then Inr (r\<lparr>output_file := Some mp4_output\<rparr>,
                                   cleanup_flv original_flv input_file w2)
                         else
                           (case subprocess_run env Cmd_full mp4_output (discard_attempt mp4_output w2) of
                              (None, w3) \<Rightarrow> Inl w3
                            | (Some rc3, w3) \<Rightarrow>
                                if full_valid rc3 w3 mp4_output
                                then Inr (r\<lparr>output_file := Some mp4_output\<rparr>,
                                          cleanup_flv original_flv input_file w3)
                                else Inr (r\<lparr>output_file := Some input_file\<rparr>, w3)))))"

definition convert_to_mp4 :: "environment \<Rightarrow> recorder \<times> world \<Rightarrow> recorder \<times> world" where
  "convert_to_mp4 env rw =
     (let (r, w) = rw
      in case convert_input r w of
           None \<Rightarrow> (r, w)
         | Some input_file \<Rightarrow>
             (case getsize w input_file of
                None \<Rightarrow> (r, w)
              | Some file_size \<Rightarrow>
                  if file_size < 51200 then (r, w)
                  else if find_ffmpeg env = None then (r\<lparr>output_file := Some input_file\<rparr>, w)
                  else
                    (case ladder env r w input_file file_size of
                       Inr rw' \<Rightarrow> rw'
                     | Inl w' \<Rightarrow>
                         (if path_exists w' input_file
                          then r\<lparr>output_file := Some input_file\<rparr> else r, w'))))"

section \<open>File names, start and stop of a recording\<close>

subsection \<open>\<open>_generate_filename\<close>\<close>

text \<open>
  \<open>re.sub(...)[:30].strip() or "live"\<close> on the title; \<open>re.sub\<close> raises on a title that is
  not a string.
\<close>

definition safe_title :: "pyval \<Rightarrow> exn + string" where
  "safe_title t =
     (case t of
        PStr s \<Rightarrow> Inr (let st = strip (take 30 (clean_name s)) in if st = [] then ''live'' else st)
      | _ \<Rightarrow> Inl (TypeError ''expected string or bytes-like object''))"

definition strftime_date :: "datetime \<Rightarrow> string" where
  "strftime_date t = zero_pad 4 (dt_year t) @ zero_pad 2 (dt_month t) @ zero_pad 2 (dt_day t)"

definition strftime_time :: "datetime \<Rightarrow> string" where
  "strftime_time t = zero_pad 2 (dt_hour t) @ zero_pad 2 (dt_minute t) @ zero_pad 2 (dt_second t)"

text \<open>
  The file name without directory and extension: the pattern with its placeholders
  replaced, cleaned, and followed by the milliseconds of the local time.
\<close>

definition expand_pattern :: "app_config \<Rightarrow> recorder \<Rightarrow> datetime \<Rightarrow> string \<Rightarrow> string" where
  "expand_pattern cfg r t st =
     (let filename = cfg_filename_pattern cfg;
          filename = replace filename ''{username}'' (username r);
          filename = replace filename ''{date}'' (strftime_date t);
          filename = replace filename ''{time}'' (strftime_time t);
          filename = replace filename ''{datetime}'' (strftime_date t @ ''_'' @ strftime_time t);
          filename = replace filename ''{title}'' st;
          filename = clean_name filename;
          ms = dt_microsecond t div 1000
      in filename @ ''_'' @ zero_pad 3 ms)"

definition counter_path :: "path \<Rightarrow> string \<Rightarrow> nat \<Rightarrow> path" where
  "counter_path dir filename counter =
     path_join dir (filename @ ''_'' @ zero_pad 3 counter @ ''.mp4'')"

definition timestamp_path :: "path \<Rightarrow> string \<Rightarrow> nat \<Rightarrow> path" where
  "timestamp_path dir filename ts = path_join dir (filename @ ''_'' @ str_nat ts @ ''.mp4'')"

text \<open>
  The loop \<open>while True\<close> with its counter: the first free counter path, and after the
  counter 999 the path with the timestamp, which is returned without a look at the
  filesystem.
\<close>

function probe_counter :: "world \<Rightarrow> path \<Rightarrow> string \<Rightarrow> nat \<Rightarrow> nat \<Rightarrow> path" where
  "probe_counter w dir filename ts counter =
     (if \<not> path_exists w (counter_path dir filename counter) then counter_path dir filename counter
      else if 999 < Suc counter then timestamp_path dir filename ts
      else probe_counter w dir filename ts (Suc counter))"
  by pat_completeness auto
termination
  by (relation "measure (\<lambda>(w, dir, filename, ts, counter). 1000 - counter)") auto

declare probe_counter.simps [simp del]

definition generate_filename :: "environment \<Rightarrow> recorder \<Rightarrow> world \<Rightarrow> exn + path" where
  "generate_filename env r w =
     (case safe_title (title r) of
        Inl e \<Rightarrow> Inl e
      | Inr st \<Rightarrow>
          (let filename = expand_pattern (config w) r (now env) st;
               dir = cfg_output_dir (config w);
               base_path = path_join dir (filename @ ''.mp4'')
           in if \<not> path_exists w base_path then Inr base_path
              else Inr (probe_counter w dir filename (time_ms env) 1)))"

subsection \<open>\<open>Recorder.start\<close>\<close>

text \<open>
  \<open>Recorder(config, notifier)\<close>: a fresh recorder; creating the output directory may
  raise.
\<close>

definition Recorder_init :: "environment \<Rightarrow> exn + recorder" where
  "Recorder_init env =
     (if mkdir_ok env
      then Inr \<lparr>is_recording = False, is_stopping = False, output_file = None,
                actual_recording_file = None, raw_recording_file = None, username = [],
                title = PStr [], live_url = [], stream_url = PStr [], process = None,
                first_write_time = None, recording_method = [], last_error = None,
                on_complete = False\<rparr>
      else Inl (OtherError ''cannot create the output directory''))"

text \<open>
  The part of \<open>_start_ffmpeg\<close> and \<open>_start_ytdlp\<close> from \<open>subprocess.Popen\<close> on. The two
  differ in the tool, the target and the texts of their errors.
\<close>

definition launch ::
  "environment \<Rightarrow> capture \<Rightarrow> pyval \<Rightarrow> string \<Rightarrow> recorder \<times> world \<Rightarrow> bool \<times> recorder \<times> world" where
  "launch env tool target name rw =
     (let (r, w) = rw
      in case popen env tool target of
           Popen_raised m \<Rightarrow> (False, r\<lparr>last_error := Some (name @ '' error: '' @ m)\<rparr>, w)
         | Exited_early pid out \<Rightarrow>
             (False, r\<lparr>process := Some pid,
                       last_error := Some (name @ '' failed: '' @ take 100 out)\<rparr>, w)
         | Running pid \<Rightarrow>
             (True,
              r\<lparr>process := Some pid, is_recording := True,
                 recording_method := (case tool of Ffmpeg \<Rightarrow> ''ffmpeg'' | Ytdlp \<Rightarrow> ''yt-dlp''),
                 actual_recording_file := raw_recording_file r\<rparr>,
              w\<lparr>trace := trace w @ [Notify_record_start (username r)]\<rparr>))"

text \<open>\<open>os.path.splitext(self.output_file)[0] + ".flv"\<close>; it raises when there is no output path.\<close>

definition flv_path :: "recorder \<Rightarrow> exn + path" where
  "flv_path r =
     (case output_file r of
        None \<Rightarrow> Inl (TypeError ''expected str, bytes or os.PathLike object, not NoneType'')
      | Some out \<Rightarrow> Inr (fst (splitext out) @ ''.flv''))"

definition start_ffmpeg ::
  "environment \<Rightarrow> pyval \<Rightarrow> recorder \<times> world \<Rightarrow> exn + bool \<times> recorder \<times> world" where
  "start_ffmpeg env surl rw =
     (let (r, w) = rw
      in case find_ffmpeg env of
           None \<Rightarrow> Inr (False, r\<lparr>last_error := Some ''FFmpeg not found''\<rparr>, w)
         | Some ffmpeg \<Rightarrow>
             (case flv_path r of
                Inl e \<Rightarrow> Inl e
              | Inr raw \<Rightarrow> Inr (launch env Ffmpeg surl ''FFmpeg'' (r\<lparr>raw_recording_file := Some raw\<rparr>, w))))"

definition start_ytdlp ::
  "environment \<Rightarrow> string \<Rightarrow> recorder \<times> world \<Rightarrow> exn + bool \<times> recorder \<times> world" where
  "start_ytdlp env lurl rw =
     (let (r, w) = rw
      in case flv_path r of
           Inl e \<Rightarrow> Inl e
         | Inr raw \<Rightarrow> Inr (launch env Ytdlp (PStr lurl) ''yt-dlp'' (r\<lparr>raw_recording_file := Some raw\<rparr>, w)))"

definition Recorder_start ::
  "environment \<Rightarrow> string \<Rightarrow> pyval \<Rightarrow> pyval \<Rightarrow> string \<Rightarrow> recorder \<times> world \<Rightarrow>
   exn + bool \<times> recorder \<times> world" where
  "Recorder_start env uname surl ttl lurl rw =
     (let (r, w) = rw
      in if is_recording r then Inr (False, r, w)
         else
           (let r = r\<lparr>username := uname, title := ttl, live_url := lurl, stream_url := surl,
                      is_stopping := False, first_write_time := Some (time_ms env),
                      actual_recording_file := None, raw_recording_file := None,
                      last_error := None\<rparr>
            in case generate_filename env r w of
                 Inl e \<Rightarrow> Inl e
               | Inr out \<Rightarrow>
                   (let r = r\<lparr>output_file := Some out\<rparr>
                    in case (if truthy surl then start_ffmpeg env surl (r, w) else Inr (False, r, w)) of
                         Inl e \<Rightarrow> Inl e
                       | Inr (True, r1, w1) \<Rightarrow> Inr (True, r1, w1)
                       | Inr (False, r1, w1) \<Rightarrow>
                           (case start_ytdlp env lurl (r1, w1) of
                              Inl e \<Rightarrow> Inl e
                            | Inr (True, r2, w2) \<Rightarrow> Inr (True, r2, w2)
                            | Inr (False, r2, w2) \<Rightarrow> Inr (False, r2\<lparr>is_recording := False\<rparr>, w2)))))"

subsection \<open>\<open>_finalize_recording\<close>, \<open>_complete_after_stop\<close> and \<open>stop\<close>\<close>

text \<open>
  The statistics count a recording whose output file exists and is larger than 10240
  bytes. Then the end of the recording is notified, and the callback, if one is set, is
  called with the output path. (The texts for the duration and the size that accompany
  them are left out; the duration added to the statistics is counted in whole seconds
  between two readings of the clock, the later one not before the earlier one.)
\<close>

definition finalize_recording :: "environment \<Rightarrow> recorder \<times> world \<Rightarrow> recorder \<times> world" where
  "finalize_recording env rw =
     (let (r, w) = rw;
          cfg = config w;
          cfg = (case output_file r of
                   None \<Rightarrow> cfg
                 | Some out \<Rightarrow>
                     (case (if out = [] then None else getsize w out) of
                        None \<Rightarrow> cfg
                      | Some actual_size \<Rightarrow>
                          if 10240 < actual_size
                          then cfg\<lparr>total_recordings := total_recordings cfg + 1,
                                   total_size_bytes := total_size_bytes cfg + actual_size,
                                   total_duration_seconds :=
                                     (case first_write_time r of
                                        None \<Rightarrow> total_duration_seconds cfg
                                      | Some t0 \<Rightarrow>
                                          if t0 = 0 then total_duration_seconds cfg
                                          else total_duration_seconds cfg + (time_ms env - t0) div 1000)\<rparr>
                          else cfg));
          w = w\<lparr>config := cfg, trace := trace w @ [Notify_record_end (username r)]\<rparr>
      in if on_complete r
         then (r, w\<lparr>trace := trace w @ [On_complete (username r) (output_file r)]\<rparr>)
         else (r, w))"

definition complete_after_stop :: "environment \<Rightarrow> recorder \<times> world \<Rightarrow> recorder \<times> world" where
  "complete_after_stop env rw = finalize_recording env (convert_to_mp4 env (adopt_actual_file rw))"

text \<open>
  \<open>stop\<close>: nothing when the recorder is not recording or is already stopping. Else the
  capture process, if there is one, is shut down (the interrupt, the wait, the kill; every
  exception of these steps is swallowed), the flags are cleared and the recording is
  completed. The filesystem of the call is the one the capture process left behind.
\<close>

definition Recorder_stop :: "environment \<Rightarrow> recorder \<times> world \<Rightarrow> recorder \<times> world" where
  "Recorder_stop env rw =
     (let (r, w) = rw
      in if \<not> is_recording r \<or> is_stopping r then (r, w)
         else
           (let r = r\<lparr>is_stopping := True\<rparr>;
                (r, w) = (case process r of
                            None \<Rightarrow> (r, w)
                          | Some pid \<Rightarrow> (r\<lparr>process := None\<rparr>, w\<lparr>trace := trace w @ [Shutdown pid]\<rparr>));
                r = r\<lparr>is_recording := False, is_stopping := False\<rparr>
            in complete_after_stop env (r, w)))"

text \<open>\<open>_complete\<close>: the end of a recording whose process ended by itself.\<close>

definition complete :: "environment \<Rightarrow> recorder \<times> world \<Rightarrow> recorder \<times> world" where
  "complete env rw =
     (let (r, w) = rw
      in if \<not> is_recording r then (r, w)
         else complete_after_stop env (r\<lparr>is_recording := False\<rparr>, w))"

section \<open>The resolver: \<open>TikTokAPI\<close>\<close>

definition QUALITY_MAP :: "(string \<times> string list) list" where
  "QUALITY_MAP =
     [(''best'', [''origin'', ''uhd'', ''hd'', ''sd'']),
      (''high'', [''hd'', ''sd'']),
      (''medium'', [''sd'']),
      (''low'', [''sd'', ''ld''])]"

text \<open>\<open>self.QUALITY_MAP.get(quality, ['origin'])\<close>\<close>

definition preferred :: "string \<Rightarrow> string list" where
  "preferred quality = (case map_of QUALITY_MAP quality of Some l \<Rightarrow> l | None \<Rightarrow> [''origin''])"

text \<open>
  What the resolver asks of the outside: the extraction library
  (\<open>YoutubeDL(...).extract_info(url, download=False)\<close>), the page fetch
  (\<open>session.get(url, timeout=15).text\<close>), the search for a script element
  (\<open>re.search\<close> with the element's id, giving the element's text) and \<open>json.loads\<close>.
\<close>

record api_env =
  extract_info :: "string \<Rightarrow> exn + pyval"
  http_get :: "string \<Rightarrow> exn + string"
  re_search :: "string \<Rightarrow> string \<Rightarrow> string option"
  json_loads :: "string \<Rightarrow> exn + pyval"

datatype api_call = Extract_info string | Http_get string

record live_info =
  success :: bool
  is_live :: bool
  info_username :: string
  info_title :: pyval
  viewer_count :: pyval
  thumbnail_url :: pyval
  info_stream_url :: pyval
  error :: "string option"

definition empty_result :: "string \<Rightarrow> live_info" where
  "empty_result uname =
     \<lparr>success = False, is_live = False, info_username = uname, info_title = PStr [],
      viewer_count = PInt 0, thumbnail_url = PNone, info_stream_url = PNone, error = None\<rparr>"

subsection \<open>\<open>_extract_stream_url\<close>\<close>

text \<open>One round of the loop over \<open>sd.get("data", {}).items()\<close>.\<close>

definition stream_data_item :: "pydict \<Rightarrow> pyval \<Rightarrow> pyval \<Rightarrow> exn + pydict" where
  "stream_data_item urls key val =
     (case py_get val ''main'' (PDict []) of
        Inl e \<Rightarrow> Inl e
      | Inr main \<Rightarrow>
          (case py_contains ''flv'' main of
             Inl e \<Rightarrow> Inl e
           | Inr True \<Rightarrow>
               (case py_getitem main ''flv'' of
                  Inl e \<Rightarrow> Inl e
                | Inr u \<Rightarrow> py_setitem urls key u)
           | Inr False \<Rightarrow>
               (case py_contains ''hls'' main of
                  Inl e \<Rightarrow> Inl e
                | Inr True \<Rightarrow>
                    (case py_getitem main ''hls'' of
                       Inl e \<Rightarrow> Inl e
                     | Inr u \<Rightarrow>
                         (case key of
                            PStr k \<Rightarrow> py_setitem urls (PStr (k @ ''_hls'')) u
                          | _ \<Rightarrow> Inl (TypeError ''unsupported operand type(s) for +'')))
                | Inr False \<Rightarrow> Inr urls)))"

text \<open>
  The loop runs inside \<open>try: ... except: pass\<close>: at the first round that raises, the
  candidates collected so far are kept.
\<close>

fun stream_data_items :: "pydict \<Rightarrow> pydict \<Rightarrow> pydict" where
  "stream_data_items urls [] = urls"
| "stream_data_items urls ((key, val) # rest) =
     (case stream_data_item urls key val of
        Inl e \<Rightarrow> urls
      | Inr urls' \<Rightarrow> stream_data_items urls' rest)"

definition py_json_loads :: "api_env \<Rightarrow> pyval \<Rightarrow> exn + pyval" where
  "py_json_loads env raw =
     (case raw of
        PStr s \<Rightarrow> json_loads env s
      | _ \<Rightarrow> Inl (TypeError (''the JSON object must be str, bytes or bytearray, not '' @ type_name raw)))"

definition pull_stream_data :: "api_env \<Rightarrow> pydict \<Rightarrow> pyval \<Rightarrow> pydict" where
  "pull_stream_data env urls pull_data =
     (case py_getitem pull_data ''stream_data'' of
        Inl e \<Rightarrow> urls
      | Inr raw \<Rightarrow>
          (case py_json_loads env raw of
             Inl e \<Rightarrow> urls
           | Inr sd \<Rightarrow>
               (case py_get sd ''data'' (PDict []) of
                  Inl e \<Rightarrow> urls
                | Inr d \<Rightarrow>
                    (case py_items d of
                       Inl e \<Rightarrow> urls
                     | Inr items \<Rightarrow> stream_data_items urls items))))"

text \<open>The loop over \<open>options.get("qualities", [])\<close>; an exception in it is not caught here.\<close>

fun qualities_loop :: "pydict \<Rightarrow> pyval list \<Rightarrow> exn + pydict" where
  "qualities_loop urls [] = Inr urls"
| "qualities_loop urls (q # qs) =
     (case py_get q ''sdk_key'' (PStr []) of
        Inl e \<Rightarrow> Inl e
      | Inr sdk_key \<Rightarrow>
          (case py_get q ''url'' PNone of
             Inl e \<Rightarrow> Inl e
           | Inr u \<Rightarrow>
               if truthy u
               then (case py_setitem urls sdk_key u of
                       Inl e \<Rightarrow> Inl e
                     | Inr urls' \<Rightarrow> qualities_loop urls' qs)
               else qualities_loop urls qs))"

definition pull_data_urls :: "api_env \<Rightarrow> pyval \<Rightarrow> exn + pydict" where
  "pull_data_urls env pull_data =
     (case py_contains ''stream_data'' pull_data of
        Inl e \<Rightarrow> Inl e
      | Inr has_stream_data \<Rightarrow>
          (let urls = (if has_stream_data then pull_stream_data env [] pull_data else [])
           in case py_get pull_data ''options'' (PDict []) of
                Inl e \<Rightarrow> Inl e
              | Inr options \<Rightarrow>
                  (case py_get options ''qualities'' (PList []) of
                     Inl e \<Rightarrow> Inl e
                   | Inr qualities \<Rightarrow>
                       (case py_iter qualities of
                          Inl e \<Rightarrow> Inl e
                        | Inr qs \<Rightarrow> qualities_loop urls qs))))"

text \<open>The candidate map \<open>urls\<close>, collected from the four places of the stream data.\<close>

definition collect_urls :: "api_env \<Rightarrow> pyval \<Rightarrow> exn + pydict" where
  "collect_urls env stream_data =
     (case py_get stream_data ''pull_data'' (PDict []) of
        Inl e \<Rightarrow> Inl e
      | Inr pull_data \<Rightarrow>
          (case (if truthy pull_data then pull_data_urls env pull_data else Inr []) of
             Inl e \<Rightarrow> Inl e
           | Inr urls \<Rightarrow>
               (case py_get stream_data ''flv_pull_url'' (PDict []) of
                  Inl e \<Rightarrow> Inl e
                | Inr flv_urls \<Rightarrow>
                    (let urls = (case flv_urls of
                                   PDict kvs \<Rightarrow> dict_update urls kvs
                                 | PStr s \<Rightarrow> dict_set urls (PStr ''flv'') flv_urls
                                 | _ \<Rightarrow> urls)
                     in case py_get stream_data ''hls_pull_url'' (PStr []) of
                          Inl e \<Rightarrow> Inl e
                        | Inr hls_url \<Rightarrow>
                            Inr (if truthy hls_url then dict_set urls (PStr ''hls'') hls_url
                                 else urls)))))"

text \<open>
  The selection: for each preference in order, the candidates in the order of the map;
  the first candidate whose lowered key contains the lowered preference and whose URL is
  true is returned.
\<close>

fun first_match :: "string \<Rightarrow> pydict \<Rightarrow> exn + pyval option" where
  "first_match pref [] = Inr None"
| "first_match pref ((key, url) # rest) =
     (case py_lower key of
        Inl e \<Rightarrow> Inl e
      | Inr k \<Rightarrow> if contains k (lower pref) \<and> truthy url then Inr (Some url)
                 else first_match pref rest)"

fun select_preferred :: "string list \<Rightarrow> pydict \<Rightarrow> exn + pyval option" where
  "select_preferred [] urls = Inr None"
| "select_preferred (pref # prefs) urls =
     (case first_match pref urls of
        Inl e \<Rightarrow> Inl e
      | Inr (Some url) \<Rightarrow> Inr (Some url)
      | Inr None \<Rightarrow> select_preferred prefs urls)"

definition select_url :: "string \<Rightarrow> pydict \<Rightarrow> exn + pyval" where
  "select_url quality urls =
     (case urls of
        [] \<Rightarrow> Inr PNone
      | (key0, url0) # rest \<Rightarrow>
          (case select_preferred (preferred quality) urls of
             Inl e \<Rightarrow> Inl e
           | Inr (Some url) \<Rightarrow> Inr url
           | Inr None \<Rightarrow> Inr url0))"

definition extract_stream_url :: "api_env \<Rightarrow> pyval \<Rightarrow> string \<Rightarrow> exn + pyval" where
  "extract_stream_url env stream_data quality =
     (if \<not> truthy stream_data then Inr PNone
      else case collect_urls env stream_data of
             Inl e \<Rightarrow> Inl e
           | Inr urls \<Rightarrow> select_url quality urls)"

subsection \<open>\<open>_try_ytdlp\<close>\<close>

text \<open>The inner loop \<open>for fmt in formats\<close> for one preference.\<close>

fun scan_formats :: "string \<Rightarrow> pyval list \<Rightarrow> exn + pyval" where
  "scan_formats pref [] = Inr PNone"
| "scan_formats pref (fmt # fmts) =
     (case py_get fmt ''format_id'' (PStr []) of
        Inl e \<Rightarrow> Inl e
      | Inr fid \<Rightarrow>
          (case py_lower fid of
             Inl e \<Rightarrow> Inl e
           | Inr fmt_id \<Rightarrow>
               (case py_get fmt ''url'' PNone of
                  Inl e \<Rightarrow> Inl e
                | Inr u \<Rightarrow> if contains fmt_id (lower pref) \<and> truthy u then Inr u
                           else scan_formats pref fmts)))"

fun scan_preferred :: "string list \<Rightarrow> pyval \<Rightarrow> exn + pyval" where
  "scan_preferred [] formats = Inr PNone"
| "scan_preferred (pref # prefs) formats =
     (case py_iter formats of
        Inl e \<Rightarrow> Inl e
      | Inr fmts \<Rightarrow>
          (case scan_formats pref fmts of
             Inl e \<Rightarrow> Inl e
           | Inr best_url \<Rightarrow> if truthy best_url then Inr best_url
                             else scan_preferred prefs formats))"

text \<open>\<open>Get highest quality available\<close>: the first format that has a URL.\<close>

fun first_with_url :: "pyval list \<Rightarrow> exn + pyval" where
  "first_with_url [] = Inr PNone"
| "first_with_url (fmt # fmts) =
     (case py_get fmt ''url'' PNone of
        Inl e \<Rightarrow> Inl e
      | Inr u \<Rightarrow> if truthy u then Inr u else first_with_url fmts)"

definition pick_format :: "string \<Rightarrow> pyval \<Rightarrow> exn + pyval" where
  "pick_format quality formats =
     (case scan_preferred (preferred quality) formats of
        Inl e \<Rightarrow> Inl e
      | Inr best_url \<Rightarrow>
          if \<not> truthy best_url \<and> truthy formats
          then (case py_iter formats of Inl e \<Rightarrow> Inl e | Inr fmts \<Rightarrow> first_with_url fmts)
          else Inr best_url)"

text \<open>
  The \<open>try\<close> block of \<open>_try_ytdlp\<close>: the result as far as it was filled in, and the
  exception that ended the block, if one did.
\<close>

definition ytdlp_block :: "api_env \<Rightarrow> string \<Rightarrow> string \<Rightarrow> live_info \<Rightarrow> live_info \<times> exn option" where
  "ytdlp_block env url quality result =
     (case extract_info env url of
        Inl e \<Rightarrow> (result, Some e)
      | Inr info \<Rightarrow>
          if \<not> truthy info then (result, None)
          else
            (let result = result\<lparr>is_live := True, success := True\<rparr>
             in case py_get info ''title'' (PStr ''TikTok Live'') of
                  Inl e \<Rightarrow> (result, Some e)
                | Inr t \<Rightarrow>
                    (let result = result\<lparr>info_title := t\<rparr>
                     in case py_get info ''concurrent_view_count'' (PInt 0) of
                          Inl e \<Rightarrow> (result, Some e)
                        | Inr v \<Rightarrow>
                            (let result = result\<lparr>viewer_count := (if truthy v then v else PInt 0)\<rparr>
                             in case py_get info ''thumbnail'' (PStr []) of
                                  Inl e \<Rightarrow> (result, Some e)
                                | Inr th \<Rightarrow>
                                    (let result = result\<lparr>thumbnail_url := th\<rparr>
                                     in case py_get info ''formats'' (PList []) of
                                          Inl e \<Rightarrow> (result, Some e)
                                        | Inr formats \<Rightarrow>
                                            (case pick_format quality formats of
                                               Inl e \<Rightarrow> (result, Some e)
                                             | Inr best_url \<Rightarrow>
                                                 (result\<lparr>info_stream_url := best_url\<rparr>, None)))))))"

text \<open>The handler \<open>except yt_dlp.utils.DownloadError as e\<close>.\<close>

definition download_error_text :: "string \<Rightarrow> string" where
  "download_error_text m =
     (let msg = lower m
      in if contains msg ''not currently live'' \<or> contains msg ''offline'' then ''User tidak sedang live''
         else if contains msg ''captcha'' \<or> contains msg ''verify''
              then ''Butuh cookies! Export cookies dari browser.''
         else if contains msg ''private'' then ''Live bersifat private''
         else if contains msg ''not exist'' \<or> contains msg ''404'' then ''User tidak ditemukan''
         else ''yt-dlp: '' @ take 60 m)"

definition try_ytdlp :: "api_env \<Rightarrow> string \<Rightarrow> string \<Rightarrow> string \<Rightarrow> live_info \<times> api_call list" where
  "try_ytdlp env url uname quality =
     (case ytdlp_block env url quality (empty_result uname) of
        (result, None) \<Rightarrow> (result, [Extract_info url])
      | (result, Some (DownloadError m)) \<Rightarrow>
          (result\<lparr>error := Some (download_error_text m)\<rparr>, [Extract_info url])
      | (result, Some e) \<Rightarrow>
          (result\<lparr>error := Some (''Error: '' @ take 60 (exn_str e))\<rparr>, [Extract_info url]))"

subsection \<open>\<open>_try_web_scrape\<close>\<close>

text \<open>
  The two blocks that read an embedded JSON document run inside \<open>try: ... except: pass\<close>.
  Each gives the result as far as it was filled in, and whether the block ended with
  \<open>return result\<close>.
\<close>

definition fill_room ::
  "api_env \<Rightarrow> string \<Rightarrow> pyval \<Rightarrow> pyval \<Rightarrow> live_info \<Rightarrow> live_info \<times> bool" where
  "fill_room env quality room t result =
     (let result = result\<lparr>info_title := t\<rparr>
      in case py_get room ''liveRoomStats'' (PDict []) of
           Inl e \<Rightarrow> (result, False)
         | Inr stats \<Rightarrow>
             (case py_get stats ''userCount'' (PInt 0) of
                Inl e \<Rightarrow> (result, False)
              | Inr n \<Rightarrow>
                  (let result = result\<lparr>viewer_count := n\<rparr>
                   in case py_get room ''coverUrl'' (PStr []) of
                        Inl e \<Rightarrow> (result, False)
                      | Inr cover \<Rightarrow>
                          (let result = result\<lparr>thumbnail_url := cover\<rparr>
                           in case py_get room ''streamData'' (PDict []) of
                                Inl e \<Rightarrow> (result, False)
                              | Inr stream_data \<Rightarrow>
                                  (case extract_stream_url env stream_data quality of
                                     Inl e \<Rightarrow> (result, False)
                                   | Inr url \<Rightarrow> (result\<lparr>info_stream_url := url\<rparr>, True))))))"

definition sigi_block :: "api_env \<Rightarrow> string \<Rightarrow> string \<Rightarrow> live_info \<Rightarrow> live_info \<times> bool" where
  "sigi_block env quality blob result =
     (case json_loads env blob of
        Inl e \<Rightarrow> (result, False)
      | Inr data \<Rightarrow>
          (case py_get data ''LiveRoom'' (PDict []) of
             Inl e \<Rightarrow> (result, False)
           | Inr live_room \<Rightarrow>
               (case py_get live_room ''liveRoomUserInfo'' (PDict []) of
                  Inl e \<Rightarrow> (result, False)
                | Inr live_room_info \<Rightarrow>
                    if \<not> truthy live_room_info then (result, False)
                    else
                      (case py_get live_room_info ''user'' (PDict []) of
                         Inl e \<Rightarrow> (result, False)
                       | Inr user \<Rightarrow>
                           (case py_get live_room_info ''liveRoom'' (PDict []) of
                              Inl e \<Rightarrow> (result, False)
                            | Inr room \<Rightarrow>
                                if \<not> truthy room then (result, False)
                                else
                                  (let result = result\<lparr>is_live := True, success := True\<rparr>
                                   in case py_get room ''title'' (PStr []) of
                                        Inl e \<Rightarrow> (result, False)
                                      | Inr t \<Rightarrow>
                                          if truthy t then fill_room env quality room t result
                                          else
                                            (case py_get user ''nickname'' (PStr ''TikTok Live'') of
                                               Inl e \<Rightarrow> (result, False)
                                             | Inr nick \<Rightarrow>
                                                 fill_room env quality room nick result)))))))"

definition next_data_block :: "api_env \<Rightarrow> string \<Rightarrow> string \<Rightarrow> live_info \<Rightarrow> live_info \<times> bool" where
  "next_data_block env quality blob result =
     (case json_loads env blob of
        Inl e \<Rightarrow> (result, False)
      | Inr data \<Rightarrow>
          (case py_get data ''props'' (PDict []) of
             Inl e \<Rightarrow> (result, False)
           | Inr p \<Rightarrow>
               (case py_get p ''pageProps'' (PDict []) of
                  Inl e \<Rightarrow> (result, False)
                | Inr props \<Rightarrow>
                    (case py_get props ''liveRoom'' (PDict []) of
                       Inl e \<Rightarrow> (result, False)
                     | Inr live_room \<Rightarrow>
                         if \<not> truthy live_room then (result, False)
                         else
                           (let result = result\<lparr>is_live := True, success := True\<rparr>
                            in case py_get live_room ''title'' (PStr ''TikTok Live'') of
                                 Inl e \<Rightarrow> (result, False)
                               | Inr t \<Rightarrow> fill_room env quality live_room t result)))))"

text \<open>The page text after the fetch: the part of the outer \<open>try\<close> block that follows it.\<close>

definition scrape_html :: "api_env \<Rightarrow> string \<Rightarrow> string \<Rightarrow> live_info \<Rightarrow> live_info" where
  "scrape_html env quality html result =
     (if contains (lower html) ''captcha'' \<or> contains (lower html) ''verify''
      then result\<lparr>error := Some ''Butuh cookies! Export cookies dari browser.''\<rparr>
      else
        (let (result, returned) =
               (case re_search env ''SIGI_STATE'' html of
                  None \<Rightarrow> (result, False)
                | Some blob \<Rightarrow> sigi_block env quality blob result)
         in if returned then result
            else
              (let (result, returned) =
                     (case re_search env ''__NEXT_DATA__'' html of
                        None \<Rightarrow> (result, False)
                      | Some blob \<Rightarrow> next_data_block env quality blob result)
               in if returned then result
                  else if contains html (''isn'' @ [CHR 0x27] @ ''t hosting a LIVE'') \<or>
                          contains (lower html) ''currently not hosting''
                       then result\<lparr>error := Some ''User tidak sedang live''\<rparr>
                       else result)))"

definition try_web_scrape :: "api_env \<Rightarrow> string \<Rightarrow> string \<Rightarrow> live_info \<times> api_call list" where
  "try_web_scrape env uname quality =
     (let result = empty_result uname;
          url = ''https://www.tiktok.com/@'' @ uname @ ''/live''
      in case http_get env url of
           Inl (RequestException m) \<Rightarrow>
             (result\<lparr>error := Some (''Network error: '' @ take 40 m)\<rparr>, [Http_get url])
         | Inl e \<Rightarrow>
             (result\<lparr>error := Some (''Scrape error: '' @ take 40 (exn_str e))\<rparr>, [Http_get url])
         | Inr html \<Rightarrow> (scrape_html env quality html result, [Http_get url]))"

subsection \<open>\<open>get_live_info\<close>\<close>

text \<open>The test \<open>r.get("error")\<close>: an error text that is not empty.\<close>

definition has_error :: "live_info \<Rightarrow> bool" where
  "has_error r = (case error r of None \<Rightarrow> False | Some m \<Rightarrow> m \<noteq> [])"

definition error_text :: "live_info \<Rightarrow> string" where
  "error_text r = (case error r of None \<Rightarrow> [] | Some m \<Rightarrow> m)"

definition normalize :: "string \<Rightarrow> string" where
  "normalize s = lower (lstrip (\<lambda>c. c = CHR ''@'') (strip s))"

text \<open>
  The result, or the exception that reaches the caller, together with the calls made to
  the outside. A handle that is not a string has no \<open>strip\<close>.
\<close>

definition get_live_info :: "api_env \<Rightarrow> pyval \<Rightarrow> string \<Rightarrow> (exn + live_info) \<times> api_call list" where
  "get_live_info env handle quality =
     (case handle of
        PStr s \<Rightarrow>
          (let uname = normalize s;
               result = empty_result uname
           in if uname = [] then (Inr (result\<lparr>error := Some ''Username tidak boleh kosong''\<rparr>), [])
              else
                (let url = ''https://www.tiktok.com/@'' @ uname @ ''/live'';
                     (yt_result, calls1) = try_ytdlp env url uname quality
                 in if success yt_result then (Inr (yt_result\<lparr>info_username := uname\<rparr>), calls1)
                    else
                      (let (web_result, calls2) = try_web_scrape env uname quality
                       in if success web_result
                          then (Inr (web_result\<lparr>info_username := uname\<rparr>), calls1 @ calls2)
                          else
                            (Inr (result\<lparr>error :=
                                     Some (if has_error yt_result then error_text yt_result
                                           else if has_error web_result then error_text web_result
                                           else ''Tidak bisa mendapatkan info live'')\<rparr>),
                             calls1 @ calls2))))
      | _ \<Rightarrow> (Inl (no_attribute handle ''strip''), []))"

section \<open>\<open>MultiRecorder\<close> and the watchlist monitor\<close>

type_synonym registry = "string \<rightharpoonup> recorder"

text \<open>
  \<open>MultiRecorder.start\<close>, run under the lock of the registry. An exception of the
  constructor or of \<open>Recorder.start\<close> leaves the registry as it was.
\<close>

definition MultiRecorder_start ::
  "environment \<Rightarrow> string \<Rightarrow> pyval \<Rightarrow> pyval \<Rightarrow> string \<Rightarrow> registry \<times> world \<Rightarrow>
   exn + bool \<times> registry \<times> world" where
  "MultiRecorder_start env uname surl ttl lurl rw =
     (let (recorders, w) = rw
      in if (case recorders uname of None \<Rightarrow> False | Some old \<Rightarrow> is_recording old)
         then Inr (False, recorders, w)
         else
           (case Recorder_init env of
              Inl e \<Rightarrow> Inl e
            | Inr rec \<Rightarrow>
                (case Recorder_start env uname surl ttl lurl (rec, w) of
                   Inl e \<Rightarrow> Inl e
                 | Inr (True, rec', w') \<Rightarrow> Inr (True, recorders(uname \<mapsto> rec'), w')
                 | Inr (False, rec', w') \<Rightarrow> Inr (False, recorders, w'))))"

text \<open>\<open>check_status\<close> and \<open>MultiRecorder.is_recording\<close>\<close>

definition check_status :: "recorder \<Rightarrow> bool" where
  "check_status r = (is_recording r \<and> \<not> is_stopping r)"

definition MultiRecorder_is_recording :: "registry \<Rightarrow> string \<Rightarrow> bool" where
  "MultiRecorder_is_recording recorders uname =
     (case recorders uname of None \<Rightarrow> False | Some r \<Rightarrow> check_status r)"

text \<open>
  The state of the application that the monitor uses: the registry, the last status of
  each user, and the flag \<open>monitoring\<close>.
\<close>

record app =
  multi :: registry
  user_status :: "string \<rightharpoonup> live_info"
  monitoring :: bool

text \<open>
  \<open>notify_live\<close>: the message is formatted when notifications of this kind are on; the
  format \<open>{viewers:,}\<close> raises for a viewer count that is not a number.
\<close>

definition notify_live :: "string \<Rightarrow> pyval \<Rightarrow> world \<Rightarrow> exn + world" where
  "notify_live u viewers w =
     (if \<not> cfg_notify_on_live (config w) then Inr w
      else case viewers of
             PInt n \<Rightarrow> Inr (w\<lparr>trace := trace w @ [Notify_live u]\<rparr>)
           | PBool b \<Rightarrow> Inr (w\<lparr>trace := trace w @ [Notify_live u]\<rparr>)
           | PStr s \<Rightarrow> Inl (ValueError (''Cannot specify '' @ [CHR 0x27] @ '','' @ [CHR 0x27] @ '' with '' @
                                    [CHR 0x27] @ ''s'' @ [CHR 0x27] @ ''.''))
           | _ \<Rightarrow> Inl (TypeError (''unsupported format string passed to '' @ type_name viewers @
                                  ''.__format__'')))"

text \<open>
  The \<open>try\<close> block of \<open>_monitor_loop\<close> for one handle: the state it reached, and the
  exception that ended it, if one did.
\<close>

definition monitor_try ::
  "api_env \<Rightarrow> environment \<Rightarrow> pyval \<Rightarrow> app \<times> world \<Rightarrow> (app \<times> world) \<times> exn option" where
  "monitor_try api env u aw =
     (let (a, w) = aw;
          w = w\<lparr>trace := trace w @ [Resolve u]\<rparr>
      in case fst (get_live_info api u (cfg_quality (config w))) of
           Inl e \<Rightarrow> ((a, w), Some e)
         | Inr info \<Rightarrow>
             (case u of
                PStr s \<Rightarrow>
                  (let a = a\<lparr>user_status := (user_status a)(s \<mapsto> info)\<rparr>
                   in if is_live info \<and> \<not> MultiRecorder_is_recording (multi a) s
                      then
                        (let url = ''https://www.tiktok.com/@'' @ s @ ''/live'';
                             w = w\<lparr>trace := trace w @ [Auto_start s]\<rparr>
                         in case MultiRecorder_start env s (info_stream_url info) (info_title info)
                                   url (multi a, w) of
                              Inl e \<Rightarrow> ((a, w), Some e)
                            | Inr (True, recorders, w1) \<Rightarrow>
                                (case notify_live s (viewer_count info) w1 of
                                   Inl e \<Rightarrow> ((a\<lparr>multi := recorders\<rparr>, w1), Some e)
                                 | Inr w2 \<Rightarrow>
                                     ((a\<lparr>multi := recorders\<rparr>,
                                       w2\<lparr>trace := trace w2 @ [Monitor_update]\<rparr>), None))
                            | Inr (False, recorders, w1) \<Rightarrow>
                                ((a\<lparr>multi := recorders\<rparr>,
                                  w1\<lparr>trace := trace w1 @ [Monitor_update]\<rparr>), None))
                      else ((a, w\<lparr>trace := trace w @ [Monitor_update]\<rparr>), None))
              | _ \<Rightarrow> ((a, w), Some (TypeError (''unhashable type: '' @ type_name u)))))"

text \<open>
  One pass of the \<open>for\<close> loop over the watchlist: the loop ends when the flag
  \<open>monitoring\<close> is off; \<open>except: pass\<close> drops the exception of a handle and the loop goes
  on with the next handle.
\<close>

fun monitor_cycle :: "api_env \<Rightarrow> environment \<Rightarrow> pyval list \<Rightarrow> app \<times> world \<Rightarrow> app \<times> world" where
  "monitor_cycle api env [] aw = aw"
| "monitor_cycle api env (u # us) aw =
     (if \<not> monitoring (fst aw) then aw
      else monitor_cycle api env us (fst (monitor_try api env u aw)))"

section \<open>What the trace says about a conversion\<close>

text \<open>
  A conversion event is accepted for an input of size \<open>S\<close> when the process returned exit
  code zero and the file at the output path passed the size test of its step.
\<close>

fun accepts :: "nat \<Rightarrow> event \<Rightarrow> bool" where
  "accepts S (Conv Cmd_remux (Some rc) (Some n)) = (rc = 0 \<and> S < 2 * n)"
| "accepts S (Conv Cmd_reencode (Some rc) (Some n)) = (rc = 0 \<and> 3 * S < 10 * n)"
| "accepts S (Conv Cmd_full (Some rc) (Some n)) = (rc = 0 \<and> 10000 < n)"
| "accepts S ev = False"

fun ev_raised :: "event \<Rightarrow> bool" where
  "ev_raised (Conv c None n) = True"
| "ev_raised ev = False"

fun ev_cmd :: "event \<Rightarrow> cmd option" where
  "ev_cmd (Conv c rc n) = Some c"
| "ev_cmd ev = None"

text \<open>The events a step of the program added to the trace.\<close>

definition new_events :: "world \<Rightarrow> world \<Rightarrow> event list" where
  "new_events w w' = drop (length (trace w)) (trace w')"

text \<open>
  A run of the ladder: the commands in their fixed order, each one after a command that
  returned and was rejected.
\<close>

definition ladder_trace :: "nat \<Rightarrow> event list \<Rightarrow> bool" where
  "ladder_trace S evs =
     (evs \<noteq> [] \<and>
      map ev_cmd evs = take (length evs) [Some Cmd_remux, Some Cmd_reencode, Some Cmd_full] \<and>
      (\<forall>ev \<in> set (butlast evs). \<not> accepts S ev \<and> \<not> ev_raised ev))"


text \<open>
  The acceptance tests as the specification words them: at least 50 % of the input size
  for the remux, at least 30 % for the audio transcode, more than 10000 bytes for the full
  transcode.
\<close>

fun spec_accepts :: "nat \<Rightarrow> event \<Rightarrow> bool" where
  "spec_accepts S (Conv Cmd_remux (Some rc) (Some n)) = (rc = 0 \<and> S \<le> 2 * n)"
| "spec_accepts S (Conv Cmd_reencode (Some rc) (Some n)) = (rc = 0 \<and> 3 * S \<le> 10 * n)"
| "spec_accepts S (Conv Cmd_full (Some rc) (Some n)) = (rc = 0 \<and> 10000 < n)"
| "spec_accepts S ev = False"


section \<open>The selection of a stream URL, as a specification\<close>

text \<open>
  The candidates whose key contains a preference (without regard to case) and whose URL
  passes the test \<open>ok\<close>, for the preferences in their order and, for each preference, in
  the order of the candidate map.
\<close>

definition key_matches :: "string \<Rightarrow> pyval \<Rightarrow> bool" where
  "key_matches pref key = (case key of PStr k \<Rightarrow> contains (lower k) (lower pref) | _ \<Rightarrow> False)"

definition candidates_by_preference :: "(pyval \<Rightarrow> bool) \<Rightarrow> string list \<Rightarrow> pydict \<Rightarrow> pydict" where
  "candidates_by_preference ok prefs urls =
     concat (map (\<lambda>pref. filter (\<lambda>kv. key_matches pref (fst kv) \<and> ok (snd kv)) urls) prefs)"

text \<open>
  The URL the specification selects: the first of these candidates, else the first
  candidate of the map, else none.
\<close>

definition spec_select_url :: "(pyval \<Rightarrow> bool) \<Rightarrow> string \<Rightarrow> pydict \<Rightarrow> pyval" where
  "spec_select_url ok quality urls =
     (case candidates_by_preference ok (preferred quality) urls of
        kv # rest \<Rightarrow> snd kv
      | [] \<Rightarrow> (case urls of [] \<Rightarrow> PNone | kv # rest \<Rightarrow> snd kv))"

definition is_str :: "pyval \<Rightarrow> bool" where
  "is_str v = (case v of PStr s \<Rightarrow> True | _ \<Rightarrow> False)"

section \<open>The paths \<open>_generate_filename\<close> looks at\<close>

text \<open>
  Path number 0 is the base path, path number \<open>k\<close> with \<open>0 < k\<close> has the counter \<open>k\<close>.
\<close>

definition probe_path :: "path \<Rightarrow> string \<Rightarrow> nat \<Rightarrow> path" where
  "probe_path dir filename k =
     (if k = 0 then path_join dir (filename @ ''.mp4'') else counter_path dir filename k)"

section \<open>Counting the steps of a stop\<close>

fun is_shutdown :: "event \<Rightarrow> bool" where
  "is_shutdown (Shutdown pid) = True"
| "is_shutdown ev = False"

fun is_record_end :: "event \<Rightarrow> bool" where
  "is_record_end (Notify_record_end u) = True"
| "is_record_end ev = False"

fun is_callback :: "event \<Rightarrow> bool" where
  "is_callback (On_complete u p) = True"
| "is_callback ev = False"

definition count_events :: "(event \<Rightarrow> bool) \<Rightarrow> event list \<Rightarrow> nat" where
  "count_events P evs = length (filter P evs)"

section \<open>The handles a monitoring cycle resolved\<close>

fun resolved :: "event \<Rightarrow> pyval option" where
  "resolved (Resolve u) = Some u"
| "resolved ev = None"

definition resolved_handles :: "event list \<Rightarrow> pyval list" where
  "resolved_handles evs = List.map_filter resolved evs"


section \<open>Failure of the two resolution strategies\<close>


section \<open>Concrete sessions\<close>

text \<open>
  A session that recorded \<open>rec/alice_001.flv\<close>, on a filesystem that holds this one file
  with a given size, and a conversion tool whose three commands end in given ways.
\<close>

definition demo_recorder :: recorder where
  "demo_recorder =
     \<lparr>is_recording = False, is_stopping = False,
      output_file = Some ''rec/alice_001.mp4'',
      actual_recording_file = Some ''rec/alice_001.flv'',
      raw_recording_file = Some ''rec/alice_001.flv'',
      username = ''alice'', title = PStr ''live'', live_url = ''https://www.tiktok.com/@alice/live'',
      stream_url = PStr ''https://pull.example/alice.flv'', process = None,
      first_write_time = Some 1700000000000, recording_method = ''ffmpeg'', last_error = None,
      on_complete = True\<rparr>"

definition demo_config :: app_config where
  "demo_config =
     \<lparr>cfg_output_dir = ''rec'', cfg_filename_pattern = ''{username}_{datetime}'',
      cfg_quality = ''best'', cfg_notify_on_live = True,
      total_recordings = 0, total_size_bytes = 0, total_duration_seconds = 0\<rparr>"

definition demo_world :: "nat \<Rightarrow> world" where
  "demo_world S =
     \<lparr>fs = \<lparr>files = [''rec/alice_001.flv'' \<mapsto> S], locked = [], listdir = (\<lambda>d. None)\<rparr>,
      trace = [], config = demo_config\<rparr>"

definition demo_now :: datetime where
  "demo_now = \<lparr>dt_year = 2024, dt_month = 1, dt_day = 31, dt_hour = 9, dt_minute = 5,
               dt_second = 7, dt_microsecond = 42617\<rparr>"

definition demo_env :: "run_result \<Rightarrow> run_result \<Rightarrow> run_result \<Rightarrow> environment" where
  "demo_env a b c =
     \<lparr>ffmpeg_present = True,
      run_cmd = (\<lambda>k. case k of Cmd_remux \<Rightarrow> a | Cmd_reencode \<Rightarrow> b | Cmd_full \<Rightarrow> c),
      popen = (\<lambda>m target. Running 4711),
      now = demo_now, time_ms = 1700000000123, mkdir_ok = True\<rparr>"

text \<open>A resolver whose library reports that the user is offline and whose network is down.\<close>

definition offline_api :: api_env where
  "offline_api =
     \<lparr>extract_info = (\<lambda>url. Inl (DownloadError ''ERROR: The channel is not currently live'')),
      http_get = (\<lambda>url. Inl (RequestException ''Connection timed out'')),
      re_search = (\<lambda>marker html. None),
      json_loads = (\<lambda>s. Inl (ValueError ''Expecting value''))\<rparr>"


text \<open>
  An output directory in which the base path of the session, its 999 counter paths and
  the path with the timestamp 1700000000123 are all taken.
\<close>

definition crowded_world :: world where
  "crowded_world =
     \<lparr>fs = \<lparr>files = map_of
                 (map (\<lambda>p. (p, 1024))
                    (map (probe_path ''rec'' (expand_pattern demo_config demo_recorder demo_now ''live''))
                       [0..<1000] @
                     [timestamp_path ''rec''
                        (expand_pattern demo_config demo_recorder demo_now ''live'') 1700000000123])),
             locked = [], listdir = (\<lambda>d. None)\<rparr>,
      trace = [], config = demo_config\<rparr>"

text \<open>An output directory with the base path of the session and its counter path 1 taken.\<close>

definition busy_world :: world where
  "busy_world =
     \<lparr>fs = \<lparr>files = [''rec/alice_20240131_090507_042.mp4'' \<mapsto> 2048,
                       ''rec/alice_20240131_090507_042_001.mp4'' \<mapsto> 4096],
             locked = [], listdir = (\<lambda>d. None)\<rparr>,
      trace = [], config = demo_config\<rparr>"

text \<open>
  A machine on which no capture can start: ffmpeg is missing and yt-dlp exits at once.
\<close>

definition broken_env :: "nat \<Rightarrow> environment" where
  "broken_env t =
     \<lparr>ffmpeg_present = False,
      run_cmd = (\<lambda>k. Exited 1 None),
      popen = (\<lambda>tool target. Exited_early 4712 ''ERROR: Unable to download webpage''),
      now = demo_now, time_ms = t, mkdir_ok = True\<rparr>"

text \<open>The recorder and the world after a recording of \<open>alice\<close> was started by ffmpeg.\<close>

definition alice_recorder :: recorder where
  "alice_recorder =
     \<lparr>is_recording = True, is_stopping = False,
      output_file = Some ''rec/alice_20240131_090507_042.mp4'',
      actual_recording_file = Some ''rec/alice_20240131_090507_042.flv'',
      raw_recording_file = Some ''rec/alice_20240131_090507_042.flv'',
      username = ''alice'', title = PStr ''live'', live_url = ''https://www.tiktok.com/@alice/live'',
      stream_url = PStr ''https://pull.example/alice.flv'', process = Some 4711,
      first_write_time = Some 1700000000123, recording_method = ''ffmpeg'', last_error = None,
      on_complete = False\<rparr>"


text \<open>The world while the recording of \<open>alice\<close> runs: the raw file has 40960 bytes.\<close>

definition recording_world :: world where
  "recording_world =
     \<lparr>fs = \<lparr>files = [''rec/alice_20240131_090507_042.flv'' \<mapsto> 40960], locked = [],
             listdir = (\<lambda>d. None)\<rparr>,
      trace = [Notify_record_start ''alice''], config = demo_config\<rparr>"

text \<open>
  A resolver for which every user is live. The extraction library reports \<open>bob\<close> with a
  title that is \<open>None\<close> and without formats, and every other user with the title \<open>live\<close>,
  1200 viewers and one format.
\<close>

definition live_api :: api_env where
  "live_api =
     \<lparr>extract_info =
        (\<lambda>url. if url = ''https://www.tiktok.com/@bob/live''
               then Inr (PDict [(PStr ''title'', PNone), (PStr ''formats'', PList [])])
               else Inr (PDict [(PStr ''title'', PStr ''live''),
                                (PStr ''concurrent_view_count'', PInt 1200),
                                (PStr ''formats'',
                                 PList [PDict [(PStr ''format_id'', PStr ''hd-0''),
                                               (PStr ''url'', PStr ''https://pull.example/alice.flv'')]])])),
      http_get = (\<lambda>url. Inl (RequestException ''Connection timed out'')),
      re_search = (\<lambda>marker html. None),
      json_loads = (\<lambda>s. Inl (ValueError ''Expecting value''))\<rparr>"

definition idle_app :: app where
  "idle_app = \<lparr>multi = Map.empty, user_status = Map.empty, monitoring = True\<rparr>"

section \<open>Finalization: the conversion ladder\<close>

lemma mp4_target_neq: "mp4_target out inp \<noteq> inp"
  by (auto simp: mp4_target_def Let_def)

lemma subprocess_runE:
  assumes "subprocess_run env c out w = (rc, w')"
  shows "trace w' = trace w @ [Conv c rc (files (fs w') out)]"
    and "p \<noteq> out \<Longrightarrow> files (fs w') p = files (fs w) p"
  using assms by (auto simp: subprocess_run_def Let_def split: option.splits)

lemma discard_attempt_props:
  "trace (discard_attempt out w) = trace w"
  "p \<noteq> out \<Longrightarrow> files (fs (discard_attempt out w)) p = files (fs w) p"
  by (auto simp: discard_attempt_def try_remove_def)

lemma cleanup_flv_trace: "trace (cleanup_flv o_flv inp w) = trace w"
  by (auto simp: cleanup_flv_def try_remove_def Let_def split: option.splits)

lemma cleanup_flv_other:
  "p \<noteq> inp \<Longrightarrow> o_flv = None \<or> o_flv = Some inp \<Longrightarrow>
   files (fs (cleanup_flv o_flv inp w)) p = files (fs w) p"
  by (auto simp: cleanup_flv_def try_remove_def Let_def path_exists_def split: option.splits)

lemma remux_valid_accepts:
  "remux_valid rc w out S = accepts S (Conv Cmd_remux (Some rc) (files (fs w) out))"
  by (cases "files (fs w) out") (auto simp: remux_valid_def getsize_def)

lemma reencode_valid_accepts:
  "reencode_valid rc w out S = accepts S (Conv Cmd_reencode (Some rc) (files (fs w) out))"
  by (cases "files (fs w) out") (auto simp: reencode_valid_def getsize_def)

lemma full_valid_accepts:
  "full_valid rc w out = accepts S (Conv Cmd_full (Some rc) (files (fs w) out))"
  by (cases "files (fs w) out") (auto simp: full_valid_def getsize_def)

lemma accepts_output: "accepts S (Conv c rc n) \<Longrightarrow> n \<noteq> None"
  by (cases c; cases rc; cases n) auto

lemma ladder_master:
  assumes out: "output_file r = Some out" and S: "files (fs w) inp = Some S"
  shows "\<exists>evs w'. trace w' = trace w @ evs \<and> ladder_trace S evs \<and>
     (if accepts S (last evs)
      then ladder env r w inp S = Inr (r\<lparr>output_file := Some (mp4_target out inp)\<rparr>, w') \<and>
           files (fs w') (mp4_target out inp) \<noteq> None
      else files (fs w') inp = Some S \<and>
           (if ev_raised (last evs) then ladder env r w inp S = Inl w'
            else length evs = 3 \<and> ladder env r w inp S = Inr (r\<lparr>output_file := Some inp\<rparr>, w')))"
proof -
  define mp4 where "mp4 = mp4_target out inp"
  define oflv where "oflv = (if endswith (lower inp) ''.flv'' then Some inp else None)"
  have neq: "inp \<noteq> mp4" "mp4 \<noteq> inp" using mp4_target_neq[of out inp] by (auto simp: mp4_def)
  have oflv: "oflv = None \<or> oflv = Some inp" by (simp add: oflv_def)
  obtain rc1 w1 where s1: "subprocess_run env Cmd_remux mp4 w = (rc1, w1)" by force
  define e1 where "e1 = Conv Cmd_remux rc1 (files (fs w1) mp4)"
  have t1: "trace w1 = trace w @ [e1]" and f1: "files (fs w1) inp = Some S"
    using subprocess_runE[OF s1] neq S by (auto simp: e1_def)
  define w1' where "w1' = discard_attempt mp4 w1"
  have t1': "trace w1' = trace w @ [e1]" and f1': "files (fs w1') inp = Some S"
    using discard_attempt_props[where out=mp4 and w=w1] t1 f1 neq by (auto simp: w1'_def)
  obtain rc2 w2 where s2: "subprocess_run env Cmd_reencode mp4 w1' = (rc2, w2)" by force
  define e2 where "e2 = Conv Cmd_reencode rc2 (files (fs w2) mp4)"
  have t2: "trace w2 = trace w @ [e1, e2]" and f2: "files (fs w2) inp = Some S"
    using subprocess_runE[OF s2] neq t1' f1' by (auto simp: e2_def)
  define w2' where "w2' = discard_attempt mp4 w2"
  have t2': "trace w2' = trace w @ [e1, e2]" and f2': "files (fs w2') inp = Some S"
    using discard_attempt_props[where out=mp4 and w=w2] t2 f2 neq by (auto simp: w2'_def)
  obtain rc3 w3 where s3: "subprocess_run env Cmd_full mp4 w2' = (rc3, w3)" by force
  define e3 where "e3 = Conv Cmd_full rc3 (files (fs w3) mp4)"
  have t3: "trace w3 = trace w @ [e1, e2, e3]" and f3: "files (fs w3) inp = Some S"
    using subprocess_runE[OF s3] neq t2' f2' by (auto simp: e3_def)
  have lad: "ladder env r w inp S =
     (case rc1 of None \<Rightarrow> Inl w1
      | Some c1 \<Rightarrow> if accepts S e1 then Inr (r\<lparr>output_file := Some mp4\<rparr>, cleanup_flv oflv inp w1)
         else (case rc2 of None \<Rightarrow> Inl w2
           | Some c2 \<Rightarrow> if accepts S e2 then Inr (r\<lparr>output_file := Some mp4\<rparr>, cleanup_flv oflv inp w2)
              else (case rc3 of None \<Rightarrow> Inl w3
                | Some c3 \<Rightarrow> if accepts S e3 then Inr (r\<lparr>output_file := Some mp4\<rparr>, cleanup_flv oflv inp w3)
                   else Inr (r\<lparr>output_file := Some inp\<rparr>, w3))))"
    unfolding ladder_def out
    by (simp add: Let_def mp4_def[symmetric] oflv_def[symmetric] s1 s2 s3 w1'_def[symmetric]
        w2'_def[symmetric] remux_valid_accepts[of _ _ _ S] reencode_valid_accepts[of _ _ _ S]
        full_valid_accepts[of _ _ _ S] e1_def e2_def e3_def split: option.splits)
  have c1: "ev_cmd e1 = Some Cmd_remux" "ev_cmd e2 = Some Cmd_reencode" "ev_cmd e3 = Some Cmd_full"
    by (simp_all add: e1_def e2_def e3_def)
  have r1: "ev_raised e1 = (rc1 = None)" "ev_raised e2 = (rc2 = None)" "ev_raised e3 = (rc3 = None)"
    by (cases rc1; cases rc2; cases rc3; simp add: e1_def e2_def e3_def)+
  have nr: "ev_raised e \<Longrightarrow> \<not> accepts S e" for e
    by (cases e; auto elim: ev_raised.elims)
  have cl: "accepts S (Conv c rc (files (fs w0) mp4)) \<Longrightarrow>
            files (fs (cleanup_flv oflv inp w0)) mp4 \<noteq> None \<and>
            trace (cleanup_flv oflv inp w0) = trace w0" for c rc w0
    using cleanup_flv_other[OF neq(2) oflv, of w0] accepts_output[of S c rc "files (fs w0) mp4"]
    by (simp add: cleanup_flv_trace)
  show ?thesis
  proof (cases "accepts S e1 \<or> ev_raised e1")
    case True
    then show ?thesis
      using lad t1 f1 c1 r1 nr[of e1] cl[of Cmd_remux rc1 w1]
      apply (intro exI[of _ "[e1]"])
      apply (cases "accepts S e1")
       apply (rule exI[of _ "cleanup_flv oflv inp w1"])
       apply (auto simp: ladder_trace_def mp4_def e1_def split: option.splits)[1]
      apply (rule exI[of _ w1])
      apply (auto simp: ladder_trace_def mp4_def split: option.splits)
      done
  next
    case n1: False
    show ?thesis
    proof (cases "accepts S e2 \<or> ev_raised e2")
      case True
      then show ?thesis
        using n1 lad t2 f2 c1 r1 nr[of e2] cl[of Cmd_reencode rc2 w2]
        apply (intro exI[of _ "[e1, e2]"])
        apply (cases "accepts S e2")
         apply (rule exI[of _ "cleanup_flv oflv inp w2"])
         apply (auto simp: ladder_trace_def mp4_def e2_def split: option.splits)[1]
        apply (rule exI[of _ w2])
        apply (auto simp: ladder_trace_def mp4_def split: option.splits)
        done
    next
      case n2: False
      show ?thesis
        using n1 n2 lad t3 f3 c1 r1 nr[of e3] cl[of Cmd_full rc3 w3]
        apply (intro exI[of _ "[e1, e2, e3]"])
        apply (cases "accepts S e3")
         apply (rule exI[of _ "cleanup_flv oflv inp w3"])
         apply (auto simp: ladder_trace_def mp4_def e3_def split: option.splits)[1]
        apply (rule exI[of _ w3])
        apply (auto simp: ladder_trace_def mp4_def split: option.splits)
        done
    qed
  qed
qed

lemma adopt_world: "snd (adopt_actual_file (r0, w0)) = w0"
  by (simp add: adopt_actual_file_def split: option.splits)

lemma adopt_fields:
  "raw_recording_file (fst (adopt_actual_file (r0, w0))) = raw_recording_file r0"
  "actual_recording_file (fst (adopt_actual_file (r0, w0))) = actual_recording_file r0"
  by (simp_all add: adopt_actual_file_def split: option.splits)

lemma adopt_present_raw:
  "present w0 (raw_recording_file r0) \<Longrightarrow>
   output_file (fst (adopt_actual_file (r0, w0))) = raw_recording_file r0"
  by (cases "raw_recording_file r0") (simp_all add: adopt_actual_file_def find_actual_file_def present_def)

lemma adopt_present_actual:
  "\<not> present w0 (raw_recording_file r0) \<Longrightarrow> present w0 (actual_recording_file r0) \<Longrightarrow>
   output_file (fst (adopt_actual_file (r0, w0))) = actual_recording_file r0"
  by (cases "actual_recording_file r0") (simp_all add: adopt_actual_file_def find_actual_file_def present_def)

lemma convert_input_cases:
  "convert_input r w =
     (if present w (raw_recording_file r) then raw_recording_file r
      else if present w (actual_recording_file r) then actual_recording_file r
      else if present w (output_file r) then output_file r else None)"
  by (simp add: convert_input_def Let_def)

lemma adopt_output:
  assumes "adopt_actual_file (r0, w0) = (r, w)" "convert_input r w = Some inp"
  shows "w = w0" "output_file r = Some inp" "files (fs w) inp \<noteq> None"
proof -
  show w: "w = w0" using adopt_world[of r0 w0] assms(1) by simp
  have r: "r = fst (adopt_actual_file (r0, w0))" using assms(1) by simp
  show o: "output_file r = Some inp"
    using assms(2) adopt_present_raw[of w0 r0] adopt_present_actual[of w0 r0] adopt_fields[of r0 w0]
    unfolding convert_input_cases w r[symmetric]
    by (auto split: if_splits)
  have "present w (Some inp)"
    using assms(2) unfolding convert_input_cases by (auto split: if_splits)
  then show "files (fs w) inp \<noteq> None" by (simp add: present_def path_exists_def)
qed

lemma new_events_append: "trace w' = trace w @ evs \<Longrightarrow> new_events w w' = evs"
  by (simp add: new_events_def)

lemma convert_cases:
  assumes out: "output_file r = Some inp" and inp: "convert_input r w = Some inp"
    and S: "getsize w inp = Some S" and c: "convert_to_mp4 env (r, w) = (r', w')"
  shows "(S < 51200 \<and> r' = r \<and> w' = w) \<or>
         (51200 \<le> S \<and> find_ffmpeg env = None \<and> r' = r \<and> w' = w) \<or>
         (51200 \<le> S \<and> find_ffmpeg env \<noteq> None \<and> ladder_trace S (new_events w w') \<and>
          (if accepts S (last (new_events w w'))
           then output_file r' = Some (mp4_target inp inp) \<and> files (fs w') (mp4_target inp inp) \<noteq> None
           else files (fs w') inp = Some S \<and> output_file r' = Some inp \<and>
                (ev_raised (last (new_events w w')) \<or> length (new_events w w') = 3)))"
proof -
  have S': "files (fs w) inp = Some S" using S by (simp add: getsize_def)
  obtain evs w1 where t: "trace w1 = trace w @ evs" and lt: "ladder_trace S evs"
    and k: "if accepts S (last evs)
      then ladder env r w inp S = Inr (r\<lparr>output_file := Some (mp4_target inp inp)\<rparr>, w1) \<and>
           files (fs w1) (mp4_target inp inp) \<noteq> None
      else files (fs w1) inp = Some S \<and>
           (if ev_raised (last evs) then ladder env r w inp S = Inl w1
            else length evs = 3 \<and> ladder env r w inp S = Inr (r\<lparr>output_file := Some inp\<rparr>, w1))"
    using ladder_master[OF out S', of env] by blast
  have ne: "new_events w w1 = evs" using t by (rule new_events_append)
  have rr: "r\<lparr>output_file := Some inp\<rparr> = r" using out by simp
  show ?thesis
  proof (cases "S < 51200")
    case True
    then show ?thesis using c inp S by (simp add: convert_to_mp4_def)
  next
    case big: False
    show ?thesis
    proof (cases "find_ffmpeg env")
      case None
      then show ?thesis using c inp S big rr by (auto simp: convert_to_mp4_def)
    next
      case (Some a)
      have c': "(r', w') = (case ladder env r w inp S of Inr rw' \<Rightarrow> rw'
                 | Inl w2 \<Rightarrow> (if path_exists w2 inp then r\<lparr>output_file := Some inp\<rparr> else r, w2))"
        using c inp S big Some by (simp add: convert_to_mp4_def)
      show ?thesis
      proof (cases "accepts S (last evs)")
        case True
        then show ?thesis using k c' big Some lt ne by auto
      next
        case False
        then show ?thesis using k c' big Some lt ne rr out
          by (cases "ev_raised (last evs)") (auto simp: path_exists_def)
      qed
    qed
  qed
qed

lemma new_events_self: "new_events w w = []"
  by (simp add: new_events_def)

lemma ladder_trace_last: "ladder_trace S evs \<Longrightarrow> last evs \<in> set evs"
  by (simp add: ladder_trace_def)

lemmas demo_simps = demo_recorder_def demo_world_def demo_env_def adopt_actual_file_def
  find_actual_file_def present_def path_exists_def convert_input_def getsize_def
  convert_to_mp4_def find_ffmpeg_def ladder_def mp4_target_def splitext_def Let_def
  subprocess_run_def written_def returncode_def remux_valid_def reencode_valid_def
  full_valid_def discard_attempt_def try_remove_def cleanup_flv_def endswith_def lower_def
  lower_char_def upper_letters_def lower_letters_def new_events_def

lemma demo_adopt:
  "adopt_actual_file (demo_recorder, demo_world S) =
     (demo_recorder\<lparr>output_file := Some ''rec/alice_001.flv''\<rparr>, demo_world S)"
  by (simp add: demo_simps)

lemma demo_convert_input:
  "convert_input (demo_recorder\<lparr>output_file := Some ''rec/alice_001.flv''\<rparr>) (demo_world S) =
     Some ''rec/alice_001.flv''"
  by (simp add: demo_simps)

lemma demo_getsize: "getsize (demo_world S) ''rec/alice_001.flv'' = Some S"
  by (simp add: demo_simps)

text \<open>
  Claim C5. When the raw file that finalization picks is smaller than 51200 bytes, the
  conversion runs no command, leaves the whole filesystem as it was, and the raw file is
  the session's output path.
\<close>

theorem small_file_skips_conversion:
  assumes "adopt_actual_file (r0, w0) = (r, w)"
    and "convert_input r w = Some input_file"
    and "getsize w input_file = Some file_size"
    and "file_size < 51200"
    and "convert_to_mp4 env (r, w) = (r', w')"
  shows "new_events w0 w' = [] \<and> fs w' = fs w0 \<and> output_file r' = Some input_file"
  using convert_cases[OF adopt_output(2)[OF assms(1,2)] assms(2,3,5)] assms(4)
    adopt_output[OF assms(1,2)]
  by (auto simp: new_events_self)

theorem small_file_skips_conversion_witness:
  "getsize (demo_world 40960) ''rec/alice_001.flv'' = Some 40960 \<and> (40960 :: nat) < 51200 \<and>
   new_events (demo_world 40960)
     (snd (convert_to_mp4 (demo_env (Exited 0 (Some 40000)) (Exited 0 (Some 40000)) (Exited 0 (Some 40000)))
        (adopt_actual_file (demo_recorder, demo_world 40960)))) = [] \<and>
   fs (snd (convert_to_mp4 (demo_env (Exited 0 (Some 40000)) (Exited 0 (Some 40000)) (Exited 0 (Some 40000)))
        (adopt_actual_file (demo_recorder, demo_world 40960)))) = fs (demo_world 40960) \<and>
   output_file (fst (convert_to_mp4 (demo_env (Exited 0 (Some 40000)) (Exited 0 (Some 40000)) (Exited 0 (Some 40000)))
        (adopt_actual_file (demo_recorder, demo_world 40960)))) = Some ''rec/alice_001.flv''"
proof -
  have h4: "(40960 :: nat) < 51200" by simp
  have h5: "convert_to_mp4 env (demo_recorder\<lparr>output_file := Some ''rec/alice_001.flv''\<rparr>, demo_world 40960) =
     (fst (convert_to_mp4 env (adopt_actual_file (demo_recorder, demo_world 40960))),
      snd (convert_to_mp4 env (adopt_actual_file (demo_recorder, demo_world 40960))))" for env
    by (simp add: demo_adopt)
  show ?thesis
    using small_file_skips_conversion[OF demo_adopt demo_convert_input demo_getsize h4 h5]
      demo_getsize[of 40960]
    by simp
qed

text \<open>
  Claim C1. In a finalization run the raw file is deleted or changed only when some
  conversion command returned exit code zero and its output passed the size test of its
  step. When no command was accepted (the tool is missing, all three were rejected, or a
  call raised) the raw file is still there with its size and it is the session's output
  path. In every case the session's output path names an existing file.
\<close>

theorem raw_file_kept_unless_accepted:
  assumes "adopt_actual_file (r0, w0) = (r, w)"
    and "convert_input r w = Some input_file"
    and "getsize w input_file = Some file_size"
    and "convert_to_mp4 env (r, w) = (r', w')"
  shows "(files (fs w') input_file \<noteq> Some file_size \<longrightarrow>
            (\<exists>ev \<in> set (new_events w w'). accepts file_size ev)) \<and>
         ((\<forall>ev \<in> set (new_events w w'). \<not> accepts file_size ev) \<longrightarrow>
            files (fs w') input_file = Some file_size \<and> output_file r' = Some input_file) \<and>
         (\<exists>p. output_file r' = Some p \<and> path_exists w' p)"
proof -
  note a = adopt_output[OF assms(1,2)]
  have S: "files (fs w) input_file = Some file_size" using assms(3) by (simp add: getsize_def)
  from convert_cases[OF a(2) assms(2,3,4)] show ?thesis
  proof (elim disjE conjE)
    assume "r' = r" "w' = w"
    then show ?thesis using a S by (simp add: new_events_self path_exists_def)
  next
    assume "r' = r" "w' = w"
    then show ?thesis using a S by (simp add: new_events_self path_exists_def)
  next
    assume lt: "ladder_trace file_size (new_events w w')"
      and k: "if accepts file_size (last (new_events w w'))
         then output_file r' = Some (mp4_target input_file input_file) \<and>
              files (fs w') (mp4_target input_file input_file) \<noteq> None
         else files (fs w') input_file = Some file_size \<and> output_file r' = Some input_file \<and>
              (ev_raised (last (new_events w w')) \<or> length (new_events w w') = 3)"
    show ?thesis
    proof (cases "accepts file_size (last (new_events w w'))")
      case True
      then show ?thesis using k ladder_trace_last[OF lt] by (auto simp: path_exists_def)
    next
      case False
      then show ?thesis using k by (auto simp: path_exists_def)
    qed
  qed
qed

lemma demo_all_rejected:
  "convert_to_mp4 (demo_env (Exited 1 None) (Exited 0 (Some 20000)) (Raised (Some 500)))
     (demo_recorder\<lparr>output_file := Some ''rec/alice_001.flv''\<rparr>, demo_world 100000) =
   (demo_recorder\<lparr>output_file := Some ''rec/alice_001.flv''\<rparr>,
    ((demo_world 100000)\<lparr>fs := \<lparr>files = [''rec/alice_001.flv'' \<mapsto> 100000, ''rec/alice_001.mp4'' \<mapsto> 500],
            locked = [], listdir = (\<lambda>d. None)\<rparr>,
      trace := [Conv Cmd_remux (Some 1) None, Conv Cmd_reencode (Some 0) (Some 20000),
               Conv Cmd_full None (Some 500)]\<rparr>))"
  by (simp add: demo_simps fun_upd_twist)

theorem raw_file_kept_unless_accepted_witness:
  "getsize (demo_world 100000) ''rec/alice_001.flv'' = Some 100000 \<and>
   \<not> accepts 100000 (Conv Cmd_remux (Some 1) None) \<and>
   \<not> accepts 100000 (Conv Cmd_reencode (Some 0) (Some 20000)) \<and>
   \<not> accepts 100000 (Conv Cmd_full None (Some 500)) \<and>
   files (fs (snd (convert_to_mp4 (demo_env (Exited 1 None) (Exited 0 (Some 20000)) (Raised (Some 500)))
        (adopt_actual_file (demo_recorder, demo_world 100000))))) ''rec/alice_001.flv'' = Some 100000 \<and>
   output_file (fst (convert_to_mp4 (demo_env (Exited 1 None) (Exited 0 (Some 20000)) (Raised (Some 500)))
        (adopt_actual_file (demo_recorder, demo_world 100000)))) = Some ''rec/alice_001.flv''"
proof -
  have ne: "new_events (demo_world 100000)
      ((demo_world 100000)\<lparr>fs := \<lparr>files = [''rec/alice_001.flv'' \<mapsto> 100000, ''rec/alice_001.mp4'' \<mapsto> 500],
              locked = [], listdir = (\<lambda>d. None)\<rparr>,
        trace := [Conv Cmd_remux (Some 1) None, Conv Cmd_reencode (Some 0) (Some 20000),
                 Conv Cmd_full None (Some 500)]\<rparr>) =
      [Conv Cmd_remux (Some 1) None, Conv Cmd_reencode (Some 0) (Some 20000),
       Conv Cmd_full None (Some 500)]"
    by (simp add: new_events_def demo_world_def)
  show ?thesis
    using raw_file_kept_unless_accepted[OF demo_adopt demo_convert_input demo_getsize demo_all_rejected]
      demo_getsize[of 100000]
    unfolding ne demo_adopt demo_all_rejected
    by simp
qed

text \<open>
  Claim C4, as the code has it. For a raw file of at least 51200 bytes and with the tool
  found, the commands run in the order remux, audio transcode, full transcode; each
  command runs only after the one before it returned and was rejected. A command is
  accepted when it returned exit code zero and its output is larger than half the input
  (remux; an output of exactly half the input is left out of the statement), larger than
  three tenths of the input (audio transcode), larger than 10000 bytes (full transcode).
  The output path of an accepted command becomes the session's output path. When the last
  command run is not accepted, the raw file is the output path, and either that call
  raised or all three commands ran.
\<close>

theorem ladder_order_and_acceptance:
  assumes "adopt_actual_file (r0, w0) = (r, w)"
    and "convert_input r w = Some input_file"
    and "getsize w input_file = Some file_size"
    and "51200 \<le> file_size"
    and "find_ffmpeg env \<noteq> None"
    and "convert_to_mp4 env (r, w) = (r', w')"
    and "\<forall>rc n. Conv Cmd_remux rc (Some n) \<in> set (new_events w w') \<longrightarrow> 2 * n \<noteq> file_size"
  shows "ladder_trace file_size (new_events w w') \<and>
         (if accepts file_size (last (new_events w w'))
          then output_file r' = Some (mp4_target input_file input_file)
          else output_file r' = Some input_file \<and>
               (ev_raised (last (new_events w w')) \<or> length (new_events w w') = 3))"
  using convert_cases[OF adopt_output(2)[OF assms(1,2)] assms(2,3,6)] assms(4,5)
  by (auto split: if_splits)

lemma demo_second_accepted:
  "convert_to_mp4 (demo_env (Exited 1 (Some 700)) (Exited 0 (Some 90000)) (Exited 0 (Some 80000)))
     (demo_recorder\<lparr>output_file := Some ''rec/alice_001.flv''\<rparr>, demo_world 100000) =
   (demo_recorder\<lparr>output_file := Some ''rec/alice_001.mp4''\<rparr>,
    ((demo_world 100000)\<lparr>fs := \<lparr>files = [''rec/alice_001.mp4'' \<mapsto> 90000], locked = [], listdir = (\<lambda>d. None)\<rparr>,
      trace := [Conv Cmd_remux (Some 1) (Some 700), Conv Cmd_reencode (Some 0) (Some 90000)]\<rparr>))"
  by (simp add: demo_simps fun_upd_twist)

theorem ladder_order_and_acceptance_witness:
  "getsize (demo_world 100000) ''rec/alice_001.flv'' = Some 100000 \<and> (51200 :: nat) \<le> 100000 \<and>
   find_ffmpeg (demo_env (Exited 1 (Some 700)) (Exited 0 (Some 90000)) (Exited 0 (Some 80000))) \<noteq> None \<and>
   new_events (demo_world 100000)
     (snd (convert_to_mp4 (demo_env (Exited 1 (Some 700)) (Exited 0 (Some 90000)) (Exited 0 (Some 80000)))
        (adopt_actual_file (demo_recorder, demo_world 100000)))) =
     [Conv Cmd_remux (Some 1) (Some 700), Conv Cmd_reencode (Some 0) (Some 90000)] \<and>
   ladder_trace 100000 [Conv Cmd_remux (Some 1) (Some 700), Conv Cmd_reencode (Some 0) (Some 90000)] \<and>
   accepts 100000 (Conv Cmd_reencode (Some 0) (Some 90000)) \<and>
   output_file (fst (convert_to_mp4 (demo_env (Exited 1 (Some 700)) (Exited 0 (Some 90000)) (Exited 0 (Some 80000)))
        (adopt_actual_file (demo_recorder, demo_world 100000)))) = Some ''rec/alice_001.mp4''"
proof -
  have ne: "new_events (demo_world 100000)
      ((demo_world 100000)\<lparr>fs := \<lparr>files = [''rec/alice_001.mp4'' \<mapsto> 90000], locked = [], listdir = (\<lambda>d. None)\<rparr>,
        trace := [Conv Cmd_remux (Some 1) (Some 700), Conv Cmd_reencode (Some 0) (Some 90000)]\<rparr>) =
      [Conv Cmd_remux (Some 1) (Some 700), Conv Cmd_reencode (Some 0) (Some 90000)]"
    by (simp add: new_events_def demo_world_def)
  have h4: "(51200 :: nat) \<le> 100000" by simp
  have h5: "find_ffmpeg (demo_env (Exited 1 (Some 700)) (Exited 0 (Some 90000)) (Exited 0 (Some 80000))) \<noteq> None"
    by (simp add: find_ffmpeg_def demo_env_def)
  have h7: "\<forall>rc n. Conv Cmd_remux rc (Some n) \<in> set (new_events (demo_world 100000)
      ((demo_world 100000)\<lparr>fs := \<lparr>files = [''rec/alice_001.mp4'' \<mapsto> 90000], locked = [], listdir = (\<lambda>d. None)\<rparr>,
        trace := [Conv Cmd_remux (Some 1) (Some 700), Conv Cmd_reencode (Some 0) (Some 90000)]\<rparr>))
      \<longrightarrow> 2 * n \<noteq> (100000 :: nat)"
    unfolding ne by simp
  have tgt: "mp4_target ''rec/alice_001.flv'' ''rec/alice_001.flv'' = ''rec/alice_001.mp4''"
    by (simp add: mp4_target_def splitext_def Let_def)
  show ?thesis
    using ladder_order_and_acceptance[OF demo_adopt demo_convert_input demo_getsize h4 h5
        demo_second_accepted h7] demo_getsize[of 100000] h5
    by (simp add: demo_adopt demo_second_accepted ne tgt)
qed

text \<open>
  Claim C4 as stated fails at the 30 % boundary: with an input of 100000 bytes, a remux
  that exits with code 1 and an audio transcode that exits with code 0 and writes exactly
  30000 bytes, the audio transcode passes the test as the specification words it, yet the
  code rejects it, runs the full transcode as well and keeps the raw file as the output.
\<close>

theorem ladder_boundary_counterexample:
  "spec_accepts 100000 (Conv Cmd_reencode (Some 0) (Some 30000)) \<and>
   new_events (demo_world 100000)
     (snd (convert_to_mp4 (demo_env (Exited 1 None) (Exited 0 (Some 30000)) (Exited 1 None))
        (adopt_actual_file (demo_recorder, demo_world 100000)))) =
     [Conv Cmd_remux (Some 1) None, Conv Cmd_reencode (Some 0) (Some 30000),
      Conv Cmd_full (Some 1) None] \<and>
   output_file (fst (convert_to_mp4 (demo_env (Exited 1 None) (Exited 0 (Some 30000)) (Exited 1 None))
        (adopt_actual_file (demo_recorder, demo_world 100000)))) = Some ''rec/alice_001.flv''"
  by (simp add: demo_simps)

section \<open>The resolver\<close>

lemma first_match_filter:
  "list_all (\<lambda>kv. is_str (fst kv)) urls \<Longrightarrow>
   first_match pref urls =
     Inr (case filter (\<lambda>kv. key_matches pref (fst kv) \<and> truthy (snd kv)) urls of
            [] \<Rightarrow> None
          | kv # rest \<Rightarrow> Some (snd kv))"
proof (induction urls)
  case Nil
  then show ?case by simp
next
  case (Cons kv urls)
  obtain key url where kv: "kv = (key, url)" by (cases kv)
  from Cons.prems obtain k where k: "key = PStr k"
    by (cases key) (auto simp: kv is_str_def)
  from Cons show ?case
    by (simp add: kv k py_lower_def key_matches_def)
qed

lemma candidates_Cons:
  "candidates_by_preference ok (pref # prefs) urls =
     filter (\<lambda>kv. key_matches pref (fst kv) \<and> ok (snd kv)) urls @
     candidates_by_preference ok prefs urls"
  by (simp add: candidates_by_preference_def)

lemma candidates_Nil: "candidates_by_preference ok prefs [] = []"
  by (induction prefs) (simp_all add: candidates_by_preference_def)

lemma select_preferred_concat:
  "list_all (\<lambda>kv. is_str (fst kv)) urls \<Longrightarrow>
   select_preferred prefs urls =
     Inr (case candidates_by_preference truthy prefs urls of
            [] \<Rightarrow> None
          | kv # rest \<Rightarrow> Some (snd kv))"
proof (induction prefs)
  case Nil
  then show ?case by (simp add: candidates_by_preference_def)
next
  case (Cons pref prefs)
  show ?case
  proof (cases "filter (\<lambda>kv. key_matches pref (fst kv) \<and> truthy (snd kv)) urls")
    case Nil
    then show ?thesis
      using Cons by (simp add: first_match_filter candidates_Cons)
  next
    case (Cons kv rest)
    then show ?thesis
      using Cons.prems by (simp add: first_match_filter candidates_Cons)
  qed
qed

text \<open>
  Claim C8, as the code has it. When the keys of the candidate map are strings, the
  selected URL is the URL of the first candidate whose key contains a preference of the
  tier (without regard to case) and whose URL is true (not empty), the preferences taken
  in the tier's order; when there is no such candidate it is the URL of the first
  candidate of the map; for an empty map it is \<open>None\<close>.
\<close>

theorem select_url_first_usable_match:
  assumes "list_all (\<lambda>kv. is_str (fst kv)) urls"
  shows "select_url quality urls = Inr (spec_select_url truthy quality urls)"
proof (cases urls)
  case Nil
  then show ?thesis
    by (simp add: select_url_def spec_select_url_def candidates_Nil)
next
  case (Cons kv rest)
  obtain key0 url0 where kv: "kv = (key0, url0)" by (cases kv)
  show ?thesis
    using select_preferred_concat[OF assms, of "preferred quality"]
    by (simp add: select_url_def spec_select_url_def Cons kv split: list.splits)
qed

lemmas select_simps = select_url_def spec_select_url_def candidates_by_preference_def
  preferred_def QUALITY_MAP_def py_lower_def key_matches_def lower_def lower_char_def
  upper_letters_def lower_letters_def is_str_def

theorem select_url_first_usable_match_witness:
  "list_all (\<lambda>kv. is_str (fst kv))
     [(PStr ''SD1'', PStr ''http://pull.example/sd.flv''),
      (PStr ''HD1'', PStr ''http://pull.example/hd.flv'')] \<and>
   select_url ''high''
     [(PStr ''SD1'', PStr ''http://pull.example/sd.flv''),
      (PStr ''HD1'', PStr ''http://pull.example/hd.flv'')] = Inr (PStr ''http://pull.example/hd.flv'')"
proof -
  have h: "list_all (\<lambda>kv. is_str (fst kv))
     [(PStr ''SD1'', PStr ''http://pull.example/sd.flv''),
      (PStr ''HD1'', PStr ''http://pull.example/hd.flv'')]"
    by (simp add: is_str_def)
  have v: "spec_select_url truthy ''high''
     [(PStr ''SD1'', PStr ''http://pull.example/sd.flv''),
      (PStr ''HD1'', PStr ''http://pull.example/hd.flv'')] = PStr ''http://pull.example/hd.flv''"
    by (simp add: select_simps)
  show ?thesis
    using select_url_first_usable_match[OF h, of "''high''"] h by (simp add: v)
qed

text \<open>
  Claim C8 as stated fails when the first candidate whose key matches has an empty URL:
  for the tier \<open>high\<close> and the candidates \<open>hd\<close> (empty URL) and \<open>sd\<close>, the first candidate
  whose key contains a preference is \<open>hd\<close>, but the code skips it and returns the URL of
  \<open>sd\<close>.
\<close>

theorem select_url_empty_url_counterexample:
  "spec_select_url (\<lambda>u. True) ''high''
     [(PStr ''hd'', PStr []), (PStr ''sd'', PStr ''http://pull.example/sd.flv'')] = PStr [] \<and>
   select_url ''high''
     [(PStr ''hd'', PStr []), (PStr ''sd'', PStr ''http://pull.example/sd.flv'')] =
     Inr (PStr ''http://pull.example/sd.flv'')"
  by (simp add: select_simps)

subsection \<open>Failure of a resolution\<close>











text \<open>
  Claim C10. When the handle normalizes to the empty string, \<open>get_live_info\<close> returns
  at once: no success, not live, the error text \<open>Username tidak boleh kosong\<close>, and no
  call to the extraction library or to the network. Blanks outside ASCII count: the
  handle of the example starts with a no-break space and ends with a next-line character
  and a space.
\<close>

theorem empty_username_rejected:
  assumes "normalize s = []"
  shows "get_live_info env (PStr s) quality =
           (Inr ((empty_result [])\<lparr>error := Some ''Username tidak boleh kosong''\<rparr>), [])"
  using assms by (simp add: get_live_info_def)

theorem empty_username_rejected_witness:
  "normalize [CHR 0xA0, CHR ''@'', CHR ''@'', CHR 0x85, CHR '' ''] = [] \<and>
   get_live_info offline_api (PStr [CHR 0xA0, CHR ''@'', CHR ''@'', CHR 0x85, CHR '' '']) ''best'' =
     (Inr \<lparr>success = False, is_live = False, info_username = [], info_title = PStr [],
           viewer_count = PInt 0, thumbnail_url = PNone, info_stream_url = PNone,
           error = Some ''Username tidak boleh kosong''\<rparr>, [])"
proof -
  have h: "normalize [CHR 0xA0, CHR ''@'', CHR ''@'', CHR 0x85, CHR '' ''] = []"
    by (simp add: normalize_def strip_def lstrip_def is_space_def lower_def)
  show ?thesis
    using empty_username_rejected[OF h, of offline_api "''best''"] h by (simp add: empty_result_def)
qed
section \<open>File names\<close>

lemma probe_counter_free:
  "counter \<le> k \<Longrightarrow> k \<le> 999 \<Longrightarrow> \<not> path_exists w (counter_path dir filename k) \<Longrightarrow>
   \<not> path_exists w (probe_counter w dir filename ts counter)"
proof (induction w dir filename ts counter rule: probe_counter.induct)
  case (1 w dir filename ts counter)
  show ?case
  proof (cases "path_exists w (counter_path dir filename counter)")
    case False
    then show ?thesis by (simp add: probe_counter.simps)
  next
    case True
    with "1.prems" have "counter \<noteq> k" by auto
    with "1.prems" have lt: "Suc counter \<le> k" by simp
    with "1.prems" have "\<not> 999 < Suc counter" by simp
    with True "1.IH" lt "1.prems" show ?thesis
      by (simp add: probe_counter.simps[of w dir filename ts counter])
  qed
qed

lemma probe_counter_crowded:
  "counter \<le> 999 \<Longrightarrow> \<forall>k. counter \<le> k \<and> k \<le> 999 \<longrightarrow> path_exists w (counter_path dir filename k) \<Longrightarrow>
   probe_counter w dir filename ts counter = timestamp_path dir filename ts"
proof (induction w dir filename ts counter rule: probe_counter.induct)
  case (1 w dir filename ts counter)
  have ex: "path_exists w (counter_path dir filename counter)" using "1.prems" by simp
  show ?case
  proof (cases "999 < Suc counter")
    case True
    with ex show ?thesis by (simp add: probe_counter.simps[of w dir filename ts counter])
  next
    case False
    with ex "1.IH" "1.prems" show ?thesis
      by (simp add: probe_counter.simps[of w dir filename ts counter])
  qed
qed

lemma generate_filename_crowded:
  assumes "safe_title (title r) = Inr st"
    and "\<forall>k<1000. path_exists w (probe_path (cfg_output_dir (config w))
                        (expand_pattern (config w) r (now env) st) k)"
  shows "generate_filename env r w =
            Inr (timestamp_path (cfg_output_dir (config w))
                   (expand_pattern (config w) r (now env) st) (time_ms env))"
proof -
  define dir where "dir = cfg_output_dir (config w)"
  define fn where "fn = expand_pattern (config w) r (now env) st"
  have all: "\<forall>k<1000. path_exists w (probe_path dir fn k)"
    using assms(2) by (simp add: dir_def fn_def)
  have g: "generate_filename env r w =
      (if \<not> path_exists w (probe_path dir fn 0) then Inr (probe_path dir fn 0)
       else Inr (probe_counter w dir fn (time_ms env) 1))"
    by (simp add: generate_filename_def assms(1) Let_def dir_def fn_def probe_path_def)
  from all have z: "path_exists w (probe_path dir fn 0)" by simp
  have "\<forall>k. 1 \<le> k \<and> k \<le> 999 \<longrightarrow> path_exists w (counter_path dir fn k)"
  proof (intro allI impI)
    fix k :: nat
    assume "1 \<le> k \<and> k \<le> 999"
    then have "k < 1000" "k \<noteq> 0" by simp_all
    with all show "path_exists w (counter_path dir fn k)"
      by (auto simp: probe_path_def)
  qed
  from probe_counter_crowded[OF _ this] z show ?thesis
    unfolding dir_def[symmetric] fn_def[symmetric] by (simp add: g)
qed

text \<open>
  Claim C6, as the code has it. For a title that is a string, when the base path or one of
  the 999 counter paths is free, \<open>_generate_filename\<close> returns a path that does not
  exist. When all 1000 of them are taken, it returns the path with the timestamp, without
  a look at the filesystem.
\<close>

theorem generate_filename_free_unless_crowded:
  assumes "safe_title (title r) = Inr st"
  shows "((\<exists>k<1000. \<not> path_exists w (probe_path (cfg_output_dir (config w))
                        (expand_pattern (config w) r (now env) st) k)) \<longrightarrow>
          (\<exists>p. generate_filename env r w = Inr p \<and> \<not> path_exists w p)) \<and>
         ((\<forall>k<1000. path_exists w (probe_path (cfg_output_dir (config w))
                        (expand_pattern (config w) r (now env) st) k)) \<longrightarrow>
          generate_filename env r w =
            Inr (timestamp_path (cfg_output_dir (config w))
                   (expand_pattern (config w) r (now env) st) (time_ms env)))"
proof -
  define dir where "dir = cfg_output_dir (config w)"
  define fn where "fn = expand_pattern (config w) r (now env) st"
  have g: "generate_filename env r w =
      (if \<not> path_exists w (probe_path dir fn 0) then Inr (probe_path dir fn 0)
       else Inr (probe_counter w dir fn (time_ms env) 1))"
    by (simp add: generate_filename_def assms Let_def dir_def fn_def probe_path_def)
  have a: "\<exists>p. generate_filename env r w = Inr p \<and> \<not> path_exists w p"
    if k: "k < 1000" and free: "\<not> path_exists w (probe_path dir fn k)" for k
  proof (cases "path_exists w (probe_path dir fn 0)")
    case False
    then show ?thesis by (simp add: g)
  next
    case True
    with free have "k \<noteq> 0" by (cases "k = 0") auto
    with k free have "1 \<le> k" "k \<le> 999" "\<not> path_exists w (counter_path dir fn k)"
      by (simp_all add: probe_path_def)
    from probe_counter_free[OF this] True show ?thesis by (simp add: g)
  qed
  have b: "generate_filename env r w = Inr (timestamp_path dir fn (time_ms env))"
    if all: "\<forall>k<1000. path_exists w (probe_path dir fn k)"
    using generate_filename_crowded[OF assms, of w env] all by (simp add: dir_def fn_def)
  show ?thesis
    unfolding dir_def[symmetric] fn_def[symmetric] using a b by blast
qed

lemmas name_simps = expand_pattern_def demo_config_def demo_recorder_def demo_now_def
  strftime_date_def strftime_time_def zero_pad_def str_nat.simps digit_char_def clean_name_def
  forbidden_chars_def Let_def

lemma demo_filename:
  "expand_pattern demo_config demo_recorder demo_now ''live'' = ''alice_20240131_090507_042''"
  by (simp add: name_simps)

lemma demo_safe_title: "safe_title (title demo_recorder) = Inr ''live''"
  by (simp add: safe_title_def demo_recorder_def clean_name_def forbidden_chars_def strip_def
      is_space_def)

lemma map_of_const: "x \<in> set xs \<Longrightarrow> map_of (map (\<lambda>p. (p, c)) xs) x = Some c"
  by (induction xs) auto

lemma crowded_config: "config crowded_world = demo_config"
  by (simp only: crowded_world_def world.select_convs)

lemma crowded_exists:
  "p \<in> set (map (probe_path ''rec'' (expand_pattern demo_config demo_recorder demo_now ''live''))
               [0..<1000] @
             [timestamp_path ''rec''
                (expand_pattern demo_config demo_recorder demo_now ''live'') 1700000000123]) \<Longrightarrow>
   path_exists crowded_world p"
  unfolding path_exists_def
  by (simp only: crowded_world_def world.select_convs filesystem.select_convs map_of_const
      option.distinct not_False_eq_True)

lemma demo_env_clock: "now (demo_env a b c) = demo_now" "time_ms (demo_env a b c) = 1700000000123"
  by (simp_all add: demo_env_def)

lemma demo_dir: "cfg_output_dir demo_config = ''rec''"
  by (simp add: demo_config_def)

lemma crowded_result:
  "generate_filename (demo_env a b c) demo_recorder crowded_world =
     Inr (timestamp_path ''rec'' (expand_pattern demo_config demo_recorder demo_now ''live'')
            1700000000123)"
proof -
  have "\<forall>k<1000. path_exists crowded_world
          (probe_path ''rec'' (expand_pattern demo_config demo_recorder demo_now ''live'') k)"
    by (intro allI impI crowded_exists) simp
  then show ?thesis
    using generate_filename_crowded[OF demo_safe_title, of crowded_world "demo_env a b c"]
    by (simp only: crowded_config demo_env_clock demo_dir)
qed

lemma demo_timestamp_path:
  "timestamp_path ''rec'' ''alice_20240131_090507_042'' 1700000000123 =
     ''rec/alice_20240131_090507_042_1700000000123.mp4''"
  by (simp add: timestamp_path_def path_join_def endswith_def str_nat.simps digit_char_def)

text \<open>
  Claim C6 as stated fails in a directory where the base path, the 999 counter paths and
  the path with the timestamp are all taken: the path that is returned exists.
\<close>

theorem generate_filename_crowded_counterexample:
  "generate_filename (demo_env (Exited 1 None) (Exited 1 None) (Exited 1 None)) demo_recorder
     crowded_world = Inr ''rec/alice_20240131_090507_042_1700000000123.mp4'' \<and>
   path_exists crowded_world ''rec/alice_20240131_090507_042_1700000000123.mp4''"
proof -
  have "path_exists crowded_world
          (timestamp_path ''rec'' (expand_pattern demo_config demo_recorder demo_now ''live'')
             1700000000123)"
    by (rule crowded_exists) simp
  then show ?thesis
    using crowded_result[of "Exited 1 None" "Exited 1 None" "Exited 1 None"]
    by (simp only: demo_filename demo_timestamp_path simp_thms)
qed

lemma busy_result:
  "generate_filename (demo_env a b c) demo_recorder busy_world =
     Inr ''rec/alice_20240131_090507_042_002.mp4''"
  by (simp add: generate_filename_def demo_safe_title Let_def demo_env_clock demo_filename
      busy_world_def demo_dir path_join_def endswith_def path_exists_def
      probe_counter.simps counter_path_def zero_pad_def str_nat.simps digit_char_def
      numeral_2_eq_2)

theorem generate_filename_free_unless_crowded_witness:
  "safe_title (title demo_recorder) = Inr ''live'' \<and>
   \<not> path_exists busy_world ''rec/alice_20240131_090507_042_002.mp4'' \<and>
   generate_filename (demo_env (Exited 1 None) (Exited 1 None) (Exited 1 None)) demo_recorder
     busy_world = Inr ''rec/alice_20240131_090507_042_002.mp4''"
proof -
  have free: "\<not> path_exists busy_world ''rec/alice_20240131_090507_042_002.mp4''"
    by (simp add: busy_world_def path_exists_def)
  have "probe_path (cfg_output_dir (config busy_world))
          (expand_pattern (config busy_world) demo_recorder
             (now (demo_env (Exited 1 None) (Exited 1 None) (Exited 1 None))) ''live'') 2 =
        ''rec/alice_20240131_090507_042_002.mp4''"
    by (simp add: busy_world_def demo_env_clock demo_filename demo_dir probe_path_def
        counter_path_def path_join_def endswith_def zero_pad_def str_nat.simps digit_char_def
        numeral_2_eq_2)
  with free have "\<exists>k<1000. \<not> path_exists busy_world
        (probe_path (cfg_output_dir (config busy_world))
          (expand_pattern (config busy_world) demo_recorder
             (now (demo_env (Exited 1 None) (Exited 1 None) (Exited 1 None))) ''live'') k)"
    by (intro exI[of _ 2]) simp
  with generate_filename_free_unless_crowded[OF demo_safe_title, of busy_world
      "demo_env (Exited 1 None) (Exited 1 None) (Exited 1 None)"]
  show ?thesis
    using demo_safe_title free busy_result by simp
qed

section \<open>The registry\<close>















section \<open>Stopping a recording\<close>

lemma subprocess_run_config: "subprocess_run env c out w = (rc, w') \<Longrightarrow> config w' = config w"
  by (auto simp: subprocess_run_def Let_def)

lemma discard_attempt_config: "config (discard_attempt out w) = config w"
  by (simp add: discard_attempt_def try_remove_def)

lemma cleanup_flv_config: "config (cleanup_flv o_flv inp w) = config w"
  by (auto simp: cleanup_flv_def try_remove_def Let_def split: option.splits)

lemma ladder_frame:
  "case ladder env r w inp S of
     Inl w' \<Rightarrow> config w' = config w
   | Inr (r', w') \<Rightarrow> config w' = config w \<and> (\<exists>p. r' = r\<lparr>output_file := p\<rparr>)"
proof (cases "output_file r")
  case None
  then show ?thesis by (simp add: ladder_def)
next
  case (Some out)
  define mp4 where "mp4 = mp4_target out inp"
  obtain rc1 w1 where s1: "subprocess_run env Cmd_remux mp4 w = (rc1, w1)" by force
  obtain rc2 w2 where s2: "subprocess_run env Cmd_reencode mp4 (discard_attempt mp4 w1) = (rc2, w2)"
    by force
  obtain rc3 w3 where s3: "subprocess_run env Cmd_full mp4 (discard_attempt mp4 w2) = (rc3, w3)"
    by force
  have c: "config w1 = config w" "config w2 = config w" "config w3 = config w"
    using subprocess_run_config[OF s1] subprocess_run_config[OF s2] subprocess_run_config[OF s3]
    by (simp_all add: discard_attempt_config)
  have p: "\<exists>p. r\<lparr>output_file := q\<rparr> = r\<lparr>output_file := p\<rparr>" for q by blast
  show ?thesis
    unfolding ladder_def Some
    by (simp add: Let_def mp4_def[symmetric] s1 s2 s3 c cleanup_flv_config p split: option.splits)
qed

lemma ladder_Inl_config: "ladder env r w inp S = Inl w' \<Longrightarrow> config w' = config w"
  using ladder_frame[where env=env and r=r and w=w and inp=inp and S=S] by simp

lemma ladder_Inr_frame:
  "ladder env r w inp S = Inr (r', w') \<Longrightarrow>
   config w' = config w \<and> (\<exists>p. r' = r\<lparr>output_file := p\<rparr>)"
  using ladder_frame[where env=env and r=r and w=w and inp=inp and S=S] by simp

lemma convert_frame:
  "config (snd (convert_to_mp4 env (r, w))) = config w \<and>
   (\<exists>p. fst (convert_to_mp4 env (r, w)) = r\<lparr>output_file := p\<rparr>)"
proof -
  have p: "\<exists>p. r = r\<lparr>output_file := p\<rparr>"
    by (rule exI[of _ "output_file r"]) simp
  have q: "\<exists>p. r\<lparr>output_file := q\<rparr> = r\<lparr>output_file := p\<rparr>" for q by blast
  show ?thesis
  proof (cases "convert_input r w")
    case None
    then show ?thesis using p by (simp add: convert_to_mp4_def)
  next
    case (Some inp)
    show ?thesis
    proof (cases "getsize w inp")
      case None
      then show ?thesis using p Some by (simp add: convert_to_mp4_def)
    next
      case S: (Some S)
      show ?thesis
      proof (cases "ladder env r w inp S")
        case (Inl w')
        then show ?thesis
          using Some S p q ladder_Inl_config[OF Inl] by (simp add: convert_to_mp4_def)
      next
        case (Inr rw')
        obtain r' w' where rw: "rw' = (r', w')" by (cases rw')
        show ?thesis
          using Some S p q Inr ladder_Inr_frame[of env r w inp S r' w']
          by (auto simp: convert_to_mp4_def rw)
      qed
    qed
  qed
qed

lemma convert_trace:
  "\<exists>evs. trace (snd (convert_to_mp4 env (r, w))) = trace w @ evs \<and>
         (\<forall>ev \<in> set evs. ev_cmd ev \<noteq> None)"
proof -
  have triv: "\<exists>evs. trace w = trace w @ evs \<and> (\<forall>ev \<in> set evs. ev_cmd ev \<noteq> None)"
    by (rule exI[of _ "[]"]) simp
  show ?thesis
  proof (cases "convert_input r w")
    case None
    then show ?thesis using triv by (simp add: convert_to_mp4_def)
  next
    case (Some inp)
    show ?thesis
    proof (cases "getsize w inp")
      case None
      then show ?thesis using triv Some by (simp add: convert_to_mp4_def)
    next
      case S: (Some S)
      show ?thesis
      proof (cases "output_file r")
        case None
        then show ?thesis
          using triv Some S by (auto simp: convert_to_mp4_def ladder_def)
      next
        case out: (Some out)
        have S': "files (fs w) inp = Some S" using S by (simp add: getsize_def)
        obtain evs w1 where t: "trace w1 = trace w @ evs" and lt: "ladder_trace S evs"
          and k: "if accepts S (last evs)
            then ladder env r w inp S = Inr (r\<lparr>output_file := Some (mp4_target out inp)\<rparr>, w1) \<and>
                 files (fs w1) (mp4_target out inp) \<noteq> None
            else files (fs w1) inp = Some S \<and>
                 (if ev_raised (last evs) then ladder env r w inp S = Inl w1
                  else length evs = 3 \<and> ladder env r w inp S = Inr (r\<lparr>output_file := Some inp\<rparr>, w1))"
          using ladder_master[OF out S', of env] by blast
        have conv: "\<forall>ev \<in> set evs. ev_cmd ev \<noteq> None"
        proof
          fix ev assume m: "ev \<in> set evs"
          then have "ev_cmd ev \<in> set (map ev_cmd evs)" by simp
          also have "map ev_cmd evs = take (length evs) [Some Cmd_remux, Some Cmd_reencode, Some Cmd_full]"
            using lt by (simp add: ladder_trace_def)
          finally have "ev_cmd ev \<in> set [Some Cmd_remux, Some Cmd_reencode, Some Cmd_full]"
            by (meson in_set_takeD)
          then show "ev_cmd ev \<noteq> None" by auto
        qed
        have "snd (convert_to_mp4 env (r, w)) = w \<or> snd (convert_to_mp4 env (r, w)) = w1"
          using Some S k by (auto simp: convert_to_mp4_def split: if_splits)
        then show ?thesis using triv t conv by auto
      qed
    qed
  qed
qed

lemma adopt_frame:
  "snd (adopt_actual_file (r, w)) = w \<and> (\<exists>p. fst (adopt_actual_file (r, w)) = r\<lparr>output_file := p\<rparr>)"
proof -
  have p: "\<exists>p. r = r\<lparr>output_file := p\<rparr>"
    by (rule exI[of _ "output_file r"]) simp
  have q: "\<exists>p. r\<lparr>output_file := q\<rparr> = r\<lparr>output_file := p\<rparr>" for q by blast
  show ?thesis
    using p q by (simp add: adopt_actual_file_def split: option.splits)
qed

lemma finalize_frame:
  "fst (finalize_recording env (r, w)) = r \<and>
   trace (snd (finalize_recording env (r, w))) =
     trace w @ [Notify_record_end (username r)] @
     (if on_complete r then [On_complete (username r) (output_file r)] else [])"
  by (simp add: finalize_recording_def Let_def)

lemma complete_after_stop_frame:
  "\<exists>p evs. fst (complete_after_stop env (r, w)) = r\<lparr>output_file := p\<rparr> \<and>
     (\<forall>ev \<in> set evs. ev_cmd ev \<noteq> None) \<and>
     trace (snd (complete_after_stop env (r, w))) =
       trace w @ evs @ [Notify_record_end (username r)] @
       (if on_complete r then [On_complete (username r) p] else [])"
proof -
  obtain r1 where a: "adopt_actual_file (r, w) = (r1, w)"
    using adopt_frame[of r w] by (cases "adopt_actual_file (r, w)") auto
  obtain p1 where r1: "r1 = r\<lparr>output_file := p1\<rparr>"
    using adopt_frame[of r w] a by auto
  obtain r2 w2 where c: "convert_to_mp4 env (r1, w) = (r2, w2)" by force
  obtain p2 where r2: "r2 = r1\<lparr>output_file := p2\<rparr>"
    using convert_frame[of env r1 w] c by auto
  obtain evs where t: "trace w2 = trace w @ evs" and conv: "\<forall>ev \<in> set evs. ev_cmd ev \<noteq> None"
    using convert_trace[of env r1 w] c by auto
  have r2': "r2 = r\<lparr>output_file := p2\<rparr>" using r1 r2 by simp
  have "fst (complete_after_stop env (r, w)) = r\<lparr>output_file := p2\<rparr> \<and>
     trace (snd (complete_after_stop env (r, w))) =
       trace w @ evs @ [Notify_record_end (username r)] @
       (if on_complete r then [On_complete (username r) p2] else [])"
    using finalize_frame[of env r2 w2] by (simp add: complete_after_stop_def a c t r2')
  with conv show ?thesis by blast
qed

lemma count_conv:
  "\<forall>ev \<in> set evs. ev_cmd ev \<noteq> None \<Longrightarrow>
   count_events is_record_end evs = 0 \<and> count_events is_shutdown evs = 0 \<and>
   count_events is_callback evs = 0"
proof (induction evs)
  case Nil
  then show ?case by (simp add: count_events_def)
next
  case (Cons ev evs)
  then show ?case by (cases ev) (auto simp: count_events_def)
qed

lemma count_append: "count_events P (xs @ ys) = count_events P xs + count_events P ys"
  by (simp add: count_events_def)

lemma count_single: "count_events P (e # es) = (if P e then 1 else 0) + count_events P es"
  by (simp add: count_events_def)

lemma count_Nil: "count_events P [] = 0"
  by (simp add: count_events_def)

lemma stop_noop: "\<not> is_recording r \<or> is_stopping r \<Longrightarrow> Recorder_stop env (r, w) = (r, w)"
  by (auto simp: Recorder_stop_def)

lemma stop_active:
  assumes "is_recording r" "\<not> is_stopping r"
  shows "\<not> is_recording (fst (Recorder_stop env (r, w))) \<and>
     count_events is_record_end (new_events w (snd (Recorder_stop env (r, w)))) = 1 \<and>
     count_events is_shutdown (new_events w (snd (Recorder_stop env (r, w)))) =
       (case process r of None \<Rightarrow> 0 | Some pid \<Rightarrow> 1) \<and>
     count_events is_callback (new_events w (snd (Recorder_stop env (r, w)))) =
       (if on_complete r then 1 else 0)"
proof -
  define r1 where "r1 = r\<lparr>is_stopping := True, process := None, is_recording := False,
                          is_stopping := False\<rparr>"
  define r0 where "r0 = r\<lparr>is_stopping := True, is_recording := False, is_stopping := False\<rparr>"
  define pre where "pre = (case process r of None \<Rightarrow> [] | Some pid \<Rightarrow> [Shutdown pid])"
  define w1 where "w1 = w\<lparr>trace := trace w @ pre\<rparr>"
  define rr where "rr = (case process r of None \<Rightarrow> r0 | Some pid \<Rightarrow> r1)"
  have s: "Recorder_stop env (r, w) = complete_after_stop env (rr, w1)"
    using assms
    by (cases "process r") (simp_all add: Recorder_stop_def Let_def r1_def r0_def pre_def w1_def rr_def)
  have rr: "\<not> is_recording rr" "on_complete rr = on_complete r"
    by (cases "process r"; simp add: rr_def r0_def r1_def)+
  obtain p evs where f: "fst (complete_after_stop env (rr, w1)) = rr\<lparr>output_file := p\<rparr>"
    and conv: "\<forall>ev \<in> set evs. ev_cmd ev \<noteq> None"
    and t: "trace (snd (complete_after_stop env (rr, w1))) =
       trace w1 @ evs @ [Notify_record_end (username rr)] @
       (if on_complete rr then [On_complete (username rr) p] else [])"
    using complete_after_stop_frame[of env rr w1] by blast
  have ne: "new_events w (snd (Recorder_stop env (r, w))) =
      pre @ evs @ [Notify_record_end (username rr)] @
       (if on_complete r then [On_complete (username rr) p] else [])"
    using t by (simp add: s new_events_def w1_def rr)
  have pre: "count_events is_record_end pre = 0" "count_events is_callback pre = 0"
    "count_events is_shutdown pre = (case process r of None \<Rightarrow> 0 | Some pid \<Rightarrow> 1)"
    by (cases "process r"; simp add: pre_def count_events_def)+
  have c1: "\<not> is_recording (fst (Recorder_stop env (r, w)))"
    using rr f by (simp add: s)
  show ?thesis
    unfolding ne using c1 count_conv[OF conv] pre
    by (simp add: count_append count_single count_Nil)
qed

text \<open>
  Claim C7. A second \<open>stop\<close> right after the first changes nothing, whatever the outside
  does. A \<open>stop\<close> on a recorder that is not recording or is already stopping changes
  nothing. For a recorder that is recording, the two calls together shut down the capture
  process once (if there is one), notify the end of the recording once and call the
  callback once (if one is set). A \<open>stop\<close> after the recording was completed because its
  process ended changes nothing either.
\<close>

theorem stop_idempotent:
  "Recorder_stop env2 (Recorder_stop env1 (r, w)) = Recorder_stop env1 (r, w) \<and>
   (\<not> is_recording r \<or> is_stopping r \<longrightarrow> Recorder_stop env1 (r, w) = (r, w)) \<and>
   (is_recording r \<and> \<not> is_stopping r \<longrightarrow>
      count_events is_shutdown
        (new_events w (snd (Recorder_stop env2 (Recorder_stop env1 (r, w))))) =
        (case process r of None \<Rightarrow> 0 | Some pid \<Rightarrow> 1) \<and>
      count_events is_record_end
        (new_events w (snd (Recorder_stop env2 (Recorder_stop env1 (r, w))))) = 1 \<and>
      count_events is_callback
        (new_events w (snd (Recorder_stop env2 (Recorder_stop env1 (r, w))))) =
        (if on_complete r then 1 else 0)) \<and>
   Recorder_stop env2 (complete env1 (r, w)) = complete env1 (r, w)"
proof -
  have idem: "Recorder_stop env2 (Recorder_stop env1 (r, w)) = Recorder_stop env1 (r, w)"
  proof (cases "is_recording r \<and> \<not> is_stopping r")
    case True
    obtain r' w' where s: "Recorder_stop env1 (r, w) = (r', w')" by force
    with stop_active[of r env1 w] True have "\<not> is_recording r'" by simp
    then show ?thesis by (simp add: s stop_noop)
  next
    case False
    then show ?thesis by (auto simp: stop_noop)
  qed
  have ended: "Recorder_stop env2 (complete env1 (r, w)) = complete env1 (r, w)"
  proof (cases "is_recording r")
    case False
    then show ?thesis by (simp add: complete_def stop_noop)
  next
    case True
    obtain r' w' where c: "complete_after_stop env1 (r\<lparr>is_recording := False\<rparr>, w) = (r', w')"
      by force
    from complete_after_stop_frame[of env1 "r\<lparr>is_recording := False\<rparr>" w] c
    have "\<not> is_recording r'" by auto
    with True c show ?thesis by (simp add: complete_def stop_noop)
  qed
  show ?thesis
    using stop_active[of r env1 w] by (auto simp: idem stop_noop ended)
qed

lemma alice_first_stop:
  "Recorder_stop (demo_env a b c) (alice_recorder, recording_world) =
     (alice_recorder\<lparr>is_recording := False, process := None,
                     output_file := Some ''rec/alice_20240131_090507_042.flv''\<rparr>,
      recording_world\<lparr>trace := [Notify_record_start ''alice'', Shutdown 4711,
                                 Notify_record_end ''alice''],
                       config := demo_config\<lparr>total_recordings := 1,
                                              total_size_bytes := 40960\<rparr>\<rparr>)"
  by (simp add: Recorder_stop_def alice_recorder_def recording_world_def Let_def
      complete_after_stop_def adopt_actual_file_def find_actual_file_def present_def
      path_exists_def convert_to_mp4_def convert_input_def getsize_def finalize_recording_def)
    (simp add: demo_env_def demo_config_def)

theorem stop_idempotent_witness:
  "is_recording alice_recorder \<and> \<not> is_stopping alice_recorder \<and>
   Recorder_stop (broken_env 1700000009000)
     (Recorder_stop (demo_env (Exited 0 (Some 40000)) (Exited 1 None) (Exited 1 None))
        (alice_recorder, recording_world)) =
   Recorder_stop (demo_env (Exited 0 (Some 40000)) (Exited 1 None) (Exited 1 None))
     (alice_recorder, recording_world) \<and>
   new_events recording_world
     (snd (Recorder_stop (demo_env (Exited 0 (Some 40000)) (Exited 1 None) (Exited 1 None))
        (alice_recorder, recording_world))) = [Shutdown 4711, Notify_record_end ''alice''] \<and>
   count_events is_record_end
     (new_events recording_world
        (snd (Recorder_stop (broken_env 1700000009000)
           (Recorder_stop (demo_env (Exited 0 (Some 40000)) (Exited 1 None) (Exited 1 None))
              (alice_recorder, recording_world))))) = 1"
proof -
  have h: "is_recording alice_recorder \<and> \<not> is_stopping alice_recorder"
    by (simp add: alice_recorder_def)
  have ne: "new_events recording_world
     (snd (Recorder_stop (demo_env (Exited 0 (Some 40000)) (Exited 1 None) (Exited 1 None))
        (alice_recorder, recording_world))) = [Shutdown 4711, Notify_record_end ''alice'']"
    by (simp add: alice_first_stop new_events_def) (simp add: recording_world_def)
  show ?thesis
    using stop_idempotent[of "broken_env 1700000009000"
        "demo_env (Exited 0 (Some 40000)) (Exited 1 None) (Exited 1 None)"
        alice_recorder recording_world] h ne
    by (simp add: count_events_def)
qed

section \<open>The watchlist monitor\<close>

lemma resolved_handles_append:
  "resolved_handles (xs @ ys) = resolved_handles xs @ resolved_handles ys"
  by (induction xs) (simp_all add: resolved_handles_def split: option.splits)

lemma resolved_handles_simps:
  "resolved_handles [] = []"
  "resolved_handles (Resolve u # evs) = u # resolved_handles evs"
  "resolved_handles (Notify_record_start s # evs) = resolved_handles evs"
  "resolved_handles (Auto_start s # evs) = resolved_handles evs"
  "resolved_handles (Notify_live s # evs) = resolved_handles evs"
  "resolved_handles (Monitor_update # evs) = resolved_handles evs"
  by (simp_all add: resolved_handles_def)

text \<open>A start adds nothing but notifications of a started recording to the trace.\<close>

lemma launch_world:
  "launch env tool target name (r, w) = (b, r', w') \<Longrightarrow>
   fs w' = fs w \<and> config w' = config w \<and>
   (\<exists>evs. trace w' = trace w @ evs \<and> resolved_handles evs = [])"
  by (auto simp: launch_def resolved_handles_simps split: spawn_result.splits
      intro: exI[of _ "[]"])

lemma start_ffmpeg_world:
  "start_ffmpeg env surl (r, w) = Inr (b, r', w') \<Longrightarrow>
   fs w' = fs w \<and> config w' = config w \<and>
   (\<exists>evs. trace w' = trace w @ evs \<and> resolved_handles evs = [])"
  by (auto simp: start_ffmpeg_def resolved_handles_simps split: option.splits sum.splits
      dest!: launch_world intro: exI[of _ "[]"])

lemma start_ytdlp_world:
  "start_ytdlp env lurl (r, w) = Inr (b, r', w') \<Longrightarrow>
   fs w' = fs w \<and> config w' = config w \<and>
   (\<exists>evs. trace w' = trace w @ evs \<and> resolved_handles evs = [])"
  by (auto simp: start_ytdlp_def split: sum.splits dest!: launch_world)

lemma Recorder_start_world:
  assumes "Recorder_start env uname surl ttl lurl (r, w) = Inr (b, r', w')"
  shows "fs w' = fs w \<and> config w' = config w \<and>
   (\<exists>evs. trace w' = trace w @ evs \<and> resolved_handles evs = [])"
proof (cases "is_recording r")
  case True
  with assms show ?thesis
    by (auto simp: Recorder_start_def resolved_handles_simps intro: exI[of _ "[]"])
next
  case False
  define r0 where "r0 = r\<lparr>username := uname, title := ttl, live_url := lurl, stream_url := surl,
                      is_stopping := False, first_write_time := Some (time_ms env),
                      actual_recording_file := None, raw_recording_file := None,
                      last_error := None\<rparr>"
  from assms False obtain out where out: "generate_filename env r0 w = Inr out"
    by (auto simp: Recorder_start_def r0_def Let_def split: sum.splits)
  define r1 where "r1 = r0\<lparr>output_file := Some out\<rparr>"
  define first where "first = (if truthy surl then start_ffmpeg env surl (r1, w) else Inr (False, r1, w))"
  have eq: "Recorder_start env uname surl ttl lurl (r, w) =
      (case first of
         Inl e \<Rightarrow> Inl e
       | Inr (True, ra, wa) \<Rightarrow> Inr (True, ra, wa)
       | Inr (False, ra, wa) \<Rightarrow>
           (case start_ytdlp env lurl (ra, wa) of
              Inl e \<Rightarrow> Inl e
            | Inr (True, rb, wb) \<Rightarrow> Inr (True, rb, wb)
            | Inr (False, rb, wb) \<Rightarrow> Inr (False, rb\<lparr>is_recording := False\<rparr>, wb)))"
    using False out
    by (simp add: Recorder_start_def Let_def r0_def[symmetric] r1_def[symmetric] first_def)
  from assms eq obtain b1 ra wa where f: "first = Inr (b1, ra, wa)"
    by (cases first) (auto split: prod.splits)
  have fw: "fs wa = fs w \<and> config wa = config w \<and>
     (\<exists>evs. trace wa = trace w @ evs \<and> resolved_handles evs = [])"
  proof (cases "truthy surl")
    case True
    with f have "start_ffmpeg env surl (r1, w) = Inr (b1, ra, wa)" by (simp add: first_def)
    then show ?thesis by (rule start_ffmpeg_world)
  next
    case False
    with f have "wa = w" by (simp add: first_def)
    then show ?thesis by (auto simp: resolved_handles_simps intro: exI[of _ "[]"])
  qed
  show ?thesis
  proof (cases b1)
    case True
    with assms eq f have "w' = wa" by simp
    with fw show ?thesis by simp
  next
    case False
    with assms eq f obtain b2 rb where "start_ytdlp env lurl (ra, wa) = Inr (b2, rb, w')"
      by (auto split: sum.splits prod.splits bool.splits)
    from start_ytdlp_world[OF this] fw show ?thesis
      by (auto simp: resolved_handles_append)
  qed
qed

lemma MultiRecorder_start_world:
  assumes "MultiRecorder_start env uname surl ttl lurl (recorders, w) = Inr (b, recorders', w')"
  shows "fs w' = fs w \<and> config w' = config w \<and>
   (\<exists>evs. trace w' = trace w @ evs \<and> resolved_handles evs = [])"
proof (cases "case recorders uname of None \<Rightarrow> False | Some old \<Rightarrow> is_recording old")
  case True
  with assms show ?thesis
    by (auto simp: MultiRecorder_start_def resolved_handles_simps intro: exI[of _ "[]"])
next
  case False
  with assms obtain rec0 b' rec' where "Recorder_start env uname surl ttl lurl (rec0, w) = Inr (b', rec', w')"
    by (auto simp: MultiRecorder_start_def split: sum.splits prod.splits bool.splits)
  then show ?thesis by (rule Recorder_start_world)
qed

lemma notify_live_world:
  "notify_live s v w = Inr w' \<Longrightarrow>
   fs w' = fs w \<and> config w' = config w \<and>
   (\<exists>evs. trace w' = trace w @ evs \<and> resolved_handles evs = [])"
  by (auto simp: notify_live_def resolved_handles_simps split: if_splits pyval.splits
      intro: exI[of _ "[]"])

lemma monitor_try_props:
  assumes "monitor_try api env u (a, w) = ((a', w'), ex)"
  shows "monitoring a' = monitoring a \<and> config w' = config w \<and> fs w' = fs w \<and>
    (\<exists>evs. trace w' = trace w @ Resolve u # evs \<and> resolved_handles evs = [] \<and>
       (\<forall>s info. u = PStr s \<and> fst (get_live_info api u (cfg_quality (config w))) = Inr info \<longrightarrow>
          user_status a' s = Some info \<and>
          (is_live info \<and> \<not> MultiRecorder_is_recording (multi a) s \<longrightarrow> Auto_start s \<in> set evs)))"
proof -
  define w0 where "w0 = w\<lparr>trace := trace w @ [Resolve u]\<rparr>"
  define q where "q = cfg_quality (config w)"
  have q0: "cfg_quality (config w0) = q" by (simp add: w0_def q_def)
  show ?thesis
  proof (cases "fst (get_live_info api u q)")
    case (Inl e)
    with assms have "a' = a" "w' = w0"
      by (simp_all add: monitor_try_def Let_def w0_def q_def)
    then show ?thesis using Inl
      by (auto simp: w0_def q_def resolved_handles_simps)
  next
    case (Inr info)
    show ?thesis
    proof (cases "\<exists>s. u = PStr s")
      case False
      with assms Inr have "a' = a" "w' = w0"
        by (cases u; simp add: monitor_try_def Let_def w0_def q_def)+
      then show ?thesis using False
        by (auto simp: w0_def resolved_handles_simps)
    next
      case True
      then obtain s where u: "u = PStr s" by blast
      define a1 where "a1 = a\<lparr>user_status := (user_status a)(s \<mapsto> info)\<rparr>"
      have a1: "monitoring a1 = monitoring a" "user_status a1 s = Some info" "multi a1 = multi a"
        by (simp_all add: a1_def)
      show ?thesis
      proof (cases "is_live info \<and> \<not> MultiRecorder_is_recording (multi a) s")
        case False
        with assms Inr u have "a' = a1" "w' = w0\<lparr>trace := trace w0 @ [Monitor_update]\<rparr>"
          by (auto simp: monitor_try_def Let_def w0_def q_def a1_def)
        then show ?thesis using False a1 Inr u
          by (auto simp: w0_def q_def resolved_handles_simps)
      next
        case live: True
        define wA where "wA = w0\<lparr>trace := trace w0 @ [Auto_start s]\<rparr>"
        define url where "url = ''https://www.tiktok.com/@'' @ s @ ''/live''"
        define res where "res = MultiRecorder_start env s (info_stream_url info) (info_title info)
                                   url (multi a1, wA)"
        note defs = monitor_try_def u Let_def w0_def q_def a1_def wA_def url_def res_def
        have wA: "trace wA = trace w @ Resolve u # [Auto_start s]" "config wA = config w" "fs wA = fs w"
          by (simp_all add: wA_def w0_def)
        have goal: "monitoring a' = monitoring a \<and> config w' = config w \<and> fs w' = fs w \<and>
          user_status a' s = Some info \<and>
          (\<exists>evs. trace w' = trace w @ Resolve u # evs \<and> resolved_handles evs = [] \<and>
                 Auto_start s \<in> set evs)"
        proof (cases res)
          case (Inl e)
          have "a' = a1" "w' = wA"
            using assms Inr live Inl by (simp_all add: defs)
          then show ?thesis using a1 wA by (auto simp: resolved_handles_simps)
        next
          case res: (Inr t)
          obtain b recorders w1 where t: "t = (b, recorders, w1)" by (cases t)
          from res t have "MultiRecorder_start env s (info_stream_url info) (info_title info)
                                   url (multi a1, wA) = Inr (b, recorders, w1)"
            by (simp add: res_def)
          from MultiRecorder_start_world[OF this] obtain evs1 where
            w1: "fs w1 = fs w" "config w1 = config w" "trace w1 = trace w @ Resolve u # Auto_start s # evs1"
              "resolved_handles evs1 = []"
            using wA by auto
          show ?thesis
          proof (cases "b \<and> (\<exists>e. notify_live s (viewer_count info) w1 = Inl e)")
            case True
            then obtain e where b: "b" and n: "notify_live s (viewer_count info) w1 = Inl e"
              by blast
            have "a' = a1\<lparr>multi := recorders\<rparr>" "w' = w1"
              using assms Inr live res t b n by (simp_all add: defs)
            then show ?thesis using a1 w1 by (auto simp: resolved_handles_simps a1_def)
          next
            case False
            show ?thesis
            proof (cases b)
              case True
              with False obtain w2 where n: "notify_live s (viewer_count info) w1 = Inr w2"
                by (cases "notify_live s (viewer_count info) w1") auto
              from notify_live_world[OF n] obtain evs2 where
                w2: "fs w2 = fs w1" "config w2 = config w1" "trace w2 = trace w1 @ evs2"
                  "resolved_handles evs2 = []" by auto
              have "a' = a1\<lparr>multi := recorders\<rparr>"
                "w' = w2\<lparr>trace := trace w2 @ [Monitor_update]\<rparr>"
                using assms Inr live res t True n by (simp_all add: defs)
              then show ?thesis using a1 w1 w2
                by (auto simp: resolved_handles_simps resolved_handles_append a1_def)
            next
              case nb: False
              have "a' = a1\<lparr>multi := recorders\<rparr>"
                "w' = w1\<lparr>trace := trace w1 @ [Monitor_update]\<rparr>"
                using assms Inr live res t nb by (simp_all add: defs)
              then show ?thesis using a1 w1
                by (auto simp: resolved_handles_simps resolved_handles_append a1_def)
            qed
          qed
        qed
        then show ?thesis using Inr u by (auto simp: q_def)
      qed
    qed
  qed
qed

lemma monitor_cycle_off: "\<not> monitoring (fst aw) \<Longrightarrow> monitor_cycle api env us aw = aw"
  by (cases us) simp_all

lemma monitor_cycle_append:
  "monitor_cycle api env (xs @ ys) aw = monitor_cycle api env ys (monitor_cycle api env xs aw)"
  by (induction xs arbitrary: aw) (simp_all add: monitor_cycle_off)

lemma monitor_cycle_props:
  "monitoring a \<Longrightarrow> monitor_cycle api env us (a, w) = (a', w') \<Longrightarrow>
   monitoring a' \<and> config w' = config w \<and>
   (\<exists>evs. trace w' = trace w @ evs \<and> resolved_handles evs = us)"
proof (induction us arbitrary: a w)
  case Nil
  then show ?case by (auto simp: resolved_handles_simps)
next
  case (Cons u us)
  obtain a1 w1 ex where t: "monitor_try api env u (a, w) = ((a1, w1), ex)"
    by (metis surj_pair)
  from monitor_try_props[OF t] obtain evs1 where
    p: "monitoring a1 = monitoring a" "config w1 = config w"
       "trace w1 = trace w @ Resolve u # evs1" "resolved_handles evs1 = []"
    by blast
  from Cons.prems t have c: "monitor_cycle api env us (a1, w1) = (a', w')" by simp
  from Cons.IH[OF _ c] p Cons.prems(1) obtain evs where
    q: "monitoring a'" "config w' = config w1" "trace w' = trace w1 @ evs" "resolved_handles evs = us"
    by auto
  have "trace w' = trace w @ (Resolve u # evs1 @ evs)" using p q by simp
  moreover have "resolved_handles (Resolve u # evs1 @ evs) = u # us"
    using p q by (simp add: resolved_handles_simps resolved_handles_append)
  ultimately have "\<exists>evs. trace w' = trace w @ evs \<and> resolved_handles evs = u # us"
    by blast
  then show ?case using p q by simp
qed

text \<open>
  Claim C9. In a cycle over the handles \<open>pre @ u # post\<close> with monitoring on, whatever
  happened for the handles of \<open>pre\<close> (each exception of the block of a handle is dropped):
  the resolutions recorded in the trace are those of all handles, in their order; the
  handle \<open>u\<close> is resolved; when its resolution gives a result, this result is recorded as
  the status of \<open>u\<close>, and when the result says live and \<open>u\<close> is not being recorded at
  that moment, a start is requested for \<open>u\<close>.
\<close>

theorem monitor_cycle_survives_errors:
  assumes "monitoring a"
    and "monitor_cycle api env pre (a, w) = (a1, w1)"
    and "monitor_cycle api env (pre @ u # post) (a, w) = (a2, w2)"
  shows "resolved_handles (new_events w w2) = pre @ u # post \<and>
         Resolve u \<in> set (new_events w1 w2) \<and>
         (\<forall>s info. u = PStr s \<and> fst (get_live_info api u (cfg_quality (config w1))) = Inr info \<longrightarrow>
            user_status (fst (monitor_cycle api env (pre @ [u]) (a, w))) s = Some info \<and>
            (is_live info \<and> \<not> MultiRecorder_is_recording (multi a1) s \<longrightarrow>
               Auto_start s \<in> set (new_events w1 w2)))"
proof -
  from monitor_cycle_props[OF assms(1,3)] have all: "resolved_handles (new_events w w2) = pre @ u # post"
    by (auto simp: new_events_append)
  from monitor_cycle_props[OF assms(1,2)] have m1: "monitoring a1" by simp
  obtain a3 w3 ex where t: "monitor_try api env u (a1, w1) = ((a3, w3), ex)"
    by (metis surj_pair)
  from monitor_try_props[OF t] obtain evs1 where
    p: "monitoring a3 = monitoring a1"
       "trace w3 = trace w1 @ Resolve u # evs1"
       "\<forall>s info. u = PStr s \<and> fst (get_live_info api u (cfg_quality (config w1))) = Inr info \<longrightarrow>
          user_status a3 s = Some info \<and>
          (is_live info \<and> \<not> MultiRecorder_is_recording (multi a1) s \<longrightarrow> Auto_start s \<in> set evs1)"
    by blast
  have one: "monitor_cycle api env (pre @ [u]) (a, w) = (a3, w3)"
    using assms(2) m1 t by (simp add: monitor_cycle_append)
  have "monitor_cycle api env post (a3, w3) = (a2, w2)"
    using assms(2,3) m1 t monitor_cycle_append[of api env pre "u # post" "(a, w)"] by simp
  from monitor_cycle_props[OF _ this] p(1) m1 obtain evs2 where "trace w2 = trace w3 @ evs2"
    by auto
  with p(2) have ne: "new_events w1 w2 = Resolve u # evs1 @ evs2"
    by (simp add: new_events_def)
  have one': "fst (monitor_cycle api env (pre @ [u]) (a, w)) = a3" by (simp add: one)
  show ?thesis
    unfolding ne one' using all p(3) by auto
qed

lemmas api_simps = get_live_info_def normalize_def strip_def lstrip_def is_space_def lower_def
  lower_char_def upper_letters_def lower_letters_def try_ytdlp_def ytdlp_block_def live_api_def
  empty_result_def py_get_def pick_format_def preferred_def QUALITY_MAP_def py_iter_def py_lower_def Let_def

lemma alice_info:
  "fst (get_live_info live_api (PStr ''alice'') ''best'') =
     Inr \<lparr>success = True, is_live = True, info_username = ''alice'', info_title = PStr ''live'',
          viewer_count = PInt 1200, thumbnail_url = PStr [], 
          info_stream_url = PStr ''https://pull.example/alice.flv'', error = None\<rparr>"
  by (simp add: api_simps)

lemma bob_info:
  "fst (get_live_info live_api (PStr ''bob'') ''best'') =
     Inr \<lparr>success = True, is_live = True, info_username = ''bob'', info_title = PNone,
          viewer_count = PInt 0, thumbnail_url = PStr [], info_stream_url = PNone, error = None\<rparr>"
  by (simp add: api_simps)

lemma bob_try:
  "monitor_try live_api (demo_env a b c) (PStr ''bob'') (idle_app, demo_world 0) =
     ((idle_app\<lparr>user_status := [''bob'' \<mapsto>
          \<lparr>success = True, is_live = True, info_username = ''bob'', info_title = PNone,
           viewer_count = PInt 0, thumbnail_url = PStr [], info_stream_url = PNone,
           error = None\<rparr>]\<rparr>,
       (demo_world 0)\<lparr>trace := [Resolve (PStr ''bob''), Auto_start ''bob'']\<rparr>),
      Some (TypeError ''expected string or bytes-like object''))"
proof -
  have q: "cfg_quality (config (demo_world 0)) = ''best''"
    by (simp add: demo_world_def demo_config_def)
  have m: "mkdir_ok (demo_env a b c)" by (simp add: demo_env_def)
  show ?thesis
    by (simp add: monitor_try_def Let_def q bob_info idle_app_def MultiRecorder_is_recording_def
        MultiRecorder_start_def Recorder_init_def m Recorder_start_def generate_filename_def
        safe_title_def)
      (simp add: demo_world_def)
qed

lemma bob_cycle:
  "monitor_cycle live_api (demo_env a b c) [PStr ''bob''] (idle_app, demo_world 0) =
     (idle_app\<lparr>user_status := [''bob'' \<mapsto>
          \<lparr>success = True, is_live = True, info_username = ''bob'', info_title = PNone,
           viewer_count = PInt 0, thumbnail_url = PStr [], info_stream_url = PNone,
           error = None\<rparr>]\<rparr>,
       (demo_world 0)\<lparr>trace := [Resolve (PStr ''bob''), Auto_start ''bob'']\<rparr>)"
  by (simp add: bob_try) (simp add: idle_app_def)

theorem monitor_cycle_survives_errors_witness:
  "monitoring idle_app \<and>
   snd (monitor_try live_api (demo_env (Exited 1 None) (Exited 1 None) (Exited 1 None))
          (PStr ''bob'') (idle_app, demo_world 0)) =
     Some (TypeError ''expected string or bytes-like object'') \<and>
   resolved_handles
     (new_events (demo_world 0)
        (snd (monitor_cycle live_api (demo_env (Exited 1 None) (Exited 1 None) (Exited 1 None))
                [PStr ''bob'', PStr ''alice''] (idle_app, demo_world 0)))) =
     [PStr ''bob'', PStr ''alice''] \<and>
   Auto_start ''alice'' \<in> set
     (new_events
        (snd (monitor_cycle live_api (demo_env (Exited 1 None) (Exited 1 None) (Exited 1 None))
                [PStr ''bob''] (idle_app, demo_world 0)))
        (snd (monitor_cycle live_api (demo_env (Exited 1 None) (Exited 1 None) (Exited 1 None))
                [PStr ''bob'', PStr ''alice''] (idle_app, demo_world 0))))"
proof -
  define env where "env = demo_env (Exited 1 None) (Exited 1 None) (Exited 1 None)"
  define a1 where "a1 = fst (monitor_cycle live_api env [PStr ''bob''] (idle_app, demo_world 0))"
  define w1 where "w1 = snd (monitor_cycle live_api env [PStr ''bob''] (idle_app, demo_world 0))"
  define a2 where "a2 = fst (monitor_cycle live_api env [PStr ''bob'', PStr ''alice'']
                               (idle_app, demo_world 0))"
  define w2 where "w2 = snd (monitor_cycle live_api env [PStr ''bob'', PStr ''alice'']
                               (idle_app, demo_world 0))"
  have h1: "monitoring idle_app" by (simp add: idle_app_def)
  have h2: "monitor_cycle live_api env [PStr ''bob''] (idle_app, demo_world 0) = (a1, w1)"
    by (simp add: a1_def w1_def)
  have h3: "monitor_cycle live_api env ([PStr ''bob''] @ PStr ''alice'' # []) (idle_app, demo_world 0) =
            (a2, w2)"
    by (simp add: a2_def w2_def)
  have q: "cfg_quality (config w1) = ''best''"
    unfolding w1_def env_def bob_cycle by (simp add: demo_world_def demo_config_def)
  have nr: "\<not> MultiRecorder_is_recording (multi a1) ''alice''"
    unfolding a1_def env_def bob_cycle
    by (simp add: MultiRecorder_is_recording_def idle_app_def)
  have g: "fst (get_live_info live_api (PStr ''alice'') (cfg_quality (config w1))) =
     Inr \<lparr>success = True, is_live = True, info_username = ''alice'', info_title = PStr ''live'',
          viewer_count = PInt 1200, thumbnail_url = PStr [],
          info_stream_url = PStr ''https://pull.example/alice.flv'', error = None\<rparr>"
    unfolding q by (rule alice_info)
  have t: "snd (monitor_try live_api env (PStr ''bob'') (idle_app, demo_world 0)) =
     Some (TypeError ''expected string or bytes-like object'')"
    unfolding env_def by (simp add: bob_try)
  from monitor_cycle_survives_errors[OF h1 h2 h3] g nr
  have "resolved_handles (new_events (demo_world 0) w2) = [PStr ''bob'', PStr ''alice''] \<and>
        Auto_start ''alice'' \<in> set (new_events w1 w2)"
    by simp
  then show ?thesis
    using h1 t unfolding w1_def w2_def env_def by simp
qed

end
